theory Spec2Isabelle
  imports Complex_Main "HOL-Library.Multiset"
begin

section \<open>Time, durations and machine integers\<close>

text \<open>
  Go's \<open>int\<close> and \<open>time.Duration\<close> are signed 64-bit integers (a Duration counts
  nanoseconds). They are modelled as \<open>int\<close> with the two's complement wrap-around written
  out by \<open>wrap64\<close>. A \<open>time.Time\<close> is modelled by its instant: the number of nanoseconds
  since the Unix epoch. Go stores the seconds of a Time in 64 bits (about 292 billion
  years either way) and the timestamps of the database lie far inside that range, so
  instants are unbounded here. Locations and monotonic readings are not modelled:
  \<open>Time.Equal\<close> compares instants and \<open>Time.UTC\<close> keeps the instant.
\<close>

type_synonym Time = int
type_synonym Duration = int

definition wrap64 :: "int \<Rightarrow> int" where
  "wrap64 x = (x + 2 ^ 63) mod 2 ^ 64 - 2 ^ 63"

definition minDuration :: Duration where
  "minDuration = - (2 ^ 63)"

definition maxDuration :: Duration where
  "maxDuration = 2 ^ 63 - 1"

definition Hour :: Duration where
  "Hour = 3600000000000"

text \<open>Go's integer division truncates towards zero.\<close>

definition quo :: "int \<Rightarrow> int \<Rightarrow> int" where
  "quo a b = sgn a * sgn b * (\<bar>a\<bar> div \<bar>b\<bar>)"

text \<open>\<open>Duration * Duration\<close>: 64-bit multiplication.\<close>

definition dmul :: "Duration \<Rightarrow> Duration \<Rightarrow> Duration" where
  "dmul a b = wrap64 (a * b)"

text \<open>\<open>Time.Add\<close> and \<open>Time.Equal\<close> on instants.\<close>

definition Add :: "Time \<Rightarrow> Duration \<Rightarrow> Time" where
  "Add t d = t + d"

definition Equal :: "Time \<Rightarrow> Time \<Rightarrow> bool" where
  "Equal t u = (t = u)"

text \<open>
  \<open>Time.Sub\<close>: the difference as a Duration; when it does not fit, the result is the
  minimal or the maximal Duration (the overflow check of the Go library).
\<close>

definition Sub :: "Time \<Rightarrow> Time \<Rightarrow> Duration" where
  "Sub t u =
     (let d = wrap64 (t - u)
      in if Equal (Add u d) t then d
         else if t < u then minDuration
         else maxDuration)"

text \<open>The zero \<open>time.Time{}\<close>: January 1, year 1, 00:00:00 UTC.\<close>

definition zeroTime :: Time where
  "zeroTime = - 62135596800 * 1000000000"

section \<open>The data model (model.go)\<close>

type_synonym QueryInterval = string
type_synonym ApiType = string
type_synonym AuthType = string
type_synonym QueryType = string
type_synonym SecretType = string

definition QueryIntervalHourly :: QueryInterval where
  "QueryIntervalHourly = ''hourly''"

definition QueryIntervalDaily :: QueryInterval where
  "QueryIntervalDaily = ''daily''"

definition QueryIntervalWeekly :: QueryInterval where
  "QueryIntervalWeekly = ''weekly''"

definition ApiTypeGrafanaCloud :: ApiType where
  "ApiTypeGrafanaCloud = ''grafanacloud''"

definition ApiTypeElasticSearch :: ApiType where
  "ApiTypeElasticSearch = ''elasticsearch''"

text \<open>
  Modelled from the spec: the constant \<open>ApiTypeCloudWatch\<close> is used by dispatch.go and
  its declaration is missing; the value is the one migration 006 adds to \<open>api_type\<close>.
\<close>

definition ApiTypeCloudWatch :: ApiType where
  "ApiTypeCloudWatch = ''cloudwatch''"

definition AuthTypeBearerToken :: AuthType where
  "AuthTypeBearerToken = ''bearer_token''"

definition AuthTypeBasicAuth :: AuthType where
  "AuthTypeBasicAuth = ''basic_auth''"

definition QueryTypePrometheus :: QueryType where
  "QueryTypePrometheus = ''prometheus''"

definition QueryTypeElasticSearchAggregate :: QueryType where
  "QueryTypeElasticSearchAggregate = ''elasticsearch_aggregate''"

definition SecretTypeBearerToken :: SecretType where
  "SecretTypeBearerToken = ''bearer_token''"

definition SecretTypeUsername :: SecretType where
  "SecretTypeUsername = ''username''"

definition SecretTypePassword :: SecretType where
  "SecretTypePassword = ''password''"

text \<open>
  Modelled from the spec: the secret names \<open>SecretTypeRegion\<close>, \<open>SecretTypeAccessKeyID\<close>
  and \<open>SecretTypeSecretAccessKey\<close> are used by dispatch.go and their declarations are
  missing; the spec lists them as region, access-key-id and secret-access-key.
\<close>

definition SecretTypeRegion :: SecretType where
  "SecretTypeRegion = ''region''"

definition SecretTypeAccessKeyID :: SecretType where
  "SecretTypeAccessKeyID = ''access_key_id''"

definition SecretTypeSecretAccessKey :: SecretType where
  "SecretTypeSecretAccessKey = ''secret_access_key''"

record Query =
  ID :: int
  Name :: string
  Query :: string
  Interval :: QueryInterval
  Start :: Time
  Finish :: "Time option"
  QueryType :: QueryType
  Dataset :: string
  ProviderID :: int
  ApiType :: ApiType
  ApiURL :: string
  AuthType :: AuthType

text \<open>A \<open>float64\<close> value is only stored and passed on; it is modelled as a real.\<close>

record DataPoint =
  Seq :: int
  Time :: Time
  Value :: real

subsection \<open>The sequence model\<close>

definition SeqTime :: "Query \<Rightarrow> int \<Rightarrow> Time" where
  "SeqTime q seq =
     (if Interval q = QueryIntervalHourly then Add (Start q) (dmul seq Hour)
      else if Interval q = QueryIntervalDaily then Add (Start q) (dmul (dmul seq Hour) 24)
      else if Interval q = QueryIntervalWeekly
        then Add (Start q) (dmul (dmul (dmul seq Hour) 24) 7)
      else zeroTime)"

definition SeqAfter :: "Query \<Rightarrow> Time \<Rightarrow> int" where
  "SeqAfter q t =
     (let sinceStart = Sub t (Start q)
      in if Interval q = QueryIntervalHourly then 1 + quo sinceStart Hour
         else if Interval q = QueryIntervalDaily then 1 + quo sinceStart (24 * Hour)
         else if Interval q = QueryIntervalWeekly then 1 + quo sinceStart (7 * 24 * Hour)
         else - 1)"

section \<open>Dispatch (dispatch.go)\<close>

text \<open>
  The errors of the program. Go wraps an error with a text prefix on its way up
  (\<open>fmt.Errorf\<close> with \<open>%w\<close>); the model keeps the innermost error.
\<close>

datatype pgerror = OutOfRange | UniqueViolation | ForeignKeyViolation | ConnectionLost

datatype error =
    UnsupportedQueryInterval QueryInterval
  | UnsupportedCollectionType ApiType
  | UnsupportedDatasourceType ApiType
  | QuerierError string
  | SourceExecute string
  | ConnectError
  | BeginError
  | ExecError pgerror
  | CommitError
  | QueryError
  | CollectRowsError
  | ContextCanceled
  | UnsupportedAuthType AuthType
  | MissingEnvironmentVariable string

type_synonym ProviderSecrets = "SecretType \<rightharpoonup> string"

text \<open>Reading a Go map gives the empty string for a missing key.\<close>

definition secret :: "ProviderSecrets \<Rightarrow> SecretType \<Rightarrow> string" where
  "secret ps ty = (case ps ty of None \<Rightarrow> [] | Some v \<Rightarrow> v)"

text \<open>
  The first switch of \<open>DispatchQuery\<close>: the window \<open>(fromTime, toTime)\<close> of a sequence
  number, or the error for an unsupported interval.
\<close>

definition DispatchWindow :: "Query \<Rightarrow> int \<Rightarrow> error + Time \<times> Time" where
  "DispatchWindow qry seq =
     (let start = Start qry
      in if Interval qry = QueryIntervalHourly then
           (let fromTime = Add start (dmul (wrap64 (seq - 1)) Hour)
            in Inr (fromTime, Add fromTime Hour))
         else if Interval qry = QueryIntervalDaily then
           (let fromTime = Add start (dmul (dmul (wrap64 (seq - 1)) Hour) 24)
            in Inr (fromTime, Add fromTime (Hour * 24)))
         else if Interval qry = QueryIntervalWeekly then
           (let fromTime = Add start (dmul (dmul (dmul (wrap64 (seq - 1)) Hour) 24) 7)
            in Inr (fromTime, Add fromTime (Hour * 24 * 7)))
         else Inl (UnsupportedQueryInterval (Interval qry)))"

text \<open>
  A \<open>Querier\<close> is its \<open>Execute\<close> method: query text, window and interval to the raw points
  or the text of an error. The three constructors and what they talk to are outside the
  program; they are the fields of \<open>Backends\<close>.
\<close>

type_synonym Querier = "string \<Rightarrow> Time \<Rightarrow> Time \<Rightarrow> QueryInterval \<Rightarrow> string + DataPoint list"

record Backends =
  NewGrafanaCloudQuerier :: "string \<Rightarrow> string \<Rightarrow> QueryType \<Rightarrow> string \<Rightarrow> string + Querier"
  NewElasticSearchAggregateQuerier :: "string \<Rightarrow> string \<Rightarrow> string \<Rightarrow> string \<Rightarrow> string + Querier"
  NewCloudWatchQuerier :: "string \<Rightarrow> string \<Rightarrow> string \<Rightarrow> string + Querier"

text \<open>The second switch of \<open>DispatchQuery\<close>: the querier of the query's API type.\<close>

definition selectQuerier :: "Backends \<Rightarrow> Query \<Rightarrow> ProviderSecrets \<Rightarrow> error + Querier" where
  "selectQuerier B qry ps =
     (if ApiType qry = ApiTypeGrafanaCloud then
        (case NewGrafanaCloudQuerier B (ApiURL qry) (Dataset qry) (QueryType qry)
                (secret ps SecretTypeBearerToken) of
           Inl e \<Rightarrow> Inl (QuerierError e)
         | Inr querier \<Rightarrow> Inr querier)
      else if ApiType qry = ApiTypeElasticSearch then
        (if QueryType qry = QueryTypeElasticSearchAggregate then
           (case NewElasticSearchAggregateQuerier B (ApiURL qry) (Dataset qry)
                   (secret ps SecretTypeUsername) (secret ps SecretTypePassword) of
              Inl e \<Rightarrow> Inl (QuerierError e)
            | Inr querier \<Rightarrow> Inr querier)
         else Inl (UnsupportedCollectionType (ApiType qry)))
      else if ApiType qry = ApiTypeCloudWatch then
        (case NewCloudWatchQuerier B (secret ps SecretTypeRegion)
                (secret ps SecretTypeAccessKeyID) (secret ps SecretTypeSecretAccessKey) of
           Inl e \<Rightarrow> Inl (QuerierError e)
         | Inr querier \<Rightarrow> Inr querier)
      else Inl (UnsupportedDatasourceType (ApiType qry)))"

text \<open>
  The loop over the raw points: the first point whose time equals \<open>toTime\<close> is returned
  alone, with the requested sequence number; no such point gives the empty list.
\<close>

fun selectPoint :: "int \<Rightarrow> Time \<Rightarrow> DataPoint list \<Rightarrow> DataPoint list" where
  "selectPoint seq toTime [] = []"
| "selectPoint seq toTime (pt # points) =
     (if Equal (Time pt) toTime then [\<lparr>Seq = seq, Time = Time pt, Value = Value pt\<rparr>]
      else selectPoint seq toTime points)"

definition DispatchQuery ::
  "Backends \<Rightarrow> Query \<Rightarrow> int \<Rightarrow> ProviderSecrets \<Rightarrow> error + DataPoint list" where
  "DispatchQuery B qry seq ps =
     (case DispatchWindow qry seq of
        Inl e \<Rightarrow> Inl e
      | Inr (fromTime, toTime) \<Rightarrow>
          (case selectQuerier B qry ps of
             Inl e \<Rightarrow> Inl e
           | Inr querier \<Rightarrow>
               (case querier (Query qry) fromTime toTime (Interval qry) of
                  Inl e \<Rightarrow> Inl (SourceExecute e)
                | Inr points \<Rightarrow> Inr (selectPoint seq toTime points))))"

section \<open>The database (model.go and the migrations)\<close>

text \<open>
  The tables of the queries and of the collected values. A row of \<open>queries\<close> is kept joined with its source and
  provider, as \<open>GetQuery\<close> and \<open>FetchActiveQueries\<close> scan it into a \<open>Query\<close>. A row of
  \<open>collections\<close> is \<open>(query_id, seq, value)\<close> with the primary key \<open>(query_id, seq)\<close> and a
  foreign key to \<open>queries\<close>; the table is a list of rows and the constraints are enforced
  by the statements, as the engine does.

  The connection can fail. \<open>faults\<close> is the script of what goes wrong: each database
  function takes the head of the script when it asks for a connection, and an empty
  script means that nothing fails.

  A select without \<open>ORDER BY\<close> returns its rows in an order the engine chooses.
  \<open>rowOrder\<close> is that choice: it rearranges the rows of a result.
\<close>

record Collection =
  c_query_id :: int
  c_seq :: int
  c_value :: real

datatype fault =
  NoFault | ConnectFault | BeginFault | ExecFault | CommitFault | QueryFault | CollectFault

record DB =
  queries :: "Query list"
  collections :: "Collection list"
  faults :: "fault list"
  rowOrder :: "int list \<Rightarrow> int list"

definition NewConn :: "DB \<Rightarrow> fault \<times> DB" where
  "NewConn db = (case faults db of [] \<Rightarrow> (NoFault, db) | f # fs \<Rightarrow> (f, db\<lparr>faults := fs\<rparr>))"

subsection \<open>The SQL of FindCollectionGaps\<close>

text \<open>
  A \<open>timestamptz\<close> counts microseconds; the driver drops the nanoseconds of a Go time below
  the microsecond.
\<close>

definition pgTimestamptz :: "Time \<Rightarrow> int" where
  "pgTimestamptz t = t div 1000"

definition usecsPerHour :: int where
  "usecsPerHour = 3600000000"

definition usecsPerDay :: int where
  "usecsPerDay = 86400000000"

text \<open>
  An SQL interval has a day field and a time field (the month field stays zero here).
  Subtracting two timestamps moves the whole days of the difference into the day field,
  so the time field stays below 24 hours; the division truncates, so both fields have the
  sign of the difference.
\<close>

record PgInterval =
  iv_day :: int
  iv_time :: int

definition timestamp_mi :: "int \<Rightarrow> int \<Rightarrow> PgInterval" where
  "timestamp_mi dt1 dt2 =
     (let d = dt1 - dt2; wholeday = quo d usecsPerDay
      in \<lparr>iv_day = wholeday, iv_time = d - wholeday * usecsPerDay\<rparr>)"

text \<open>\<open>extract\<close> reads one field of the interval: the hours of the time field, or the days.\<close>

definition extract_hour :: "PgInterval \<Rightarrow> int" where
  "extract_hour iv = quo (iv_time iv) usecsPerHour"

definition extract_day :: "PgInterval \<Rightarrow> int" where
  "extract_day iv = iv_day iv"

text \<open>The \<open>case\<close> expression of the query: the column \<open>last\<close> of a row of \<open>queries\<close>.\<close>

definition lastSeq :: "Query \<Rightarrow> int \<Rightarrow> int" where
  "lastSeq r now =
     (let iv = timestamp_mi now (pgTimestamptz (Start r))
      in if Interval r = ''hourly'' then extract_hour iv
         else if Interval r = ''daily'' then extract_day iv
         else if Interval r = ''weekly'' then quo (extract_day iv) 7
         else 0)"

text \<open>
  \<open>generate_series(0, last, 1)\<close> left-joined with the rows of \<open>collections\<close> of the query,
  keeping the numbers that found no row. The statement has no \<open>ORDER BY\<close> and the Go code
  does not sort: the rows come out as the engine orders them.
\<close>

definition hasCollection :: "DB \<Rightarrow> int \<Rightarrow> int \<Rightarrow> bool" where
  "hasCollection db queryID expected =
     (\<exists>c \<in> set (collections db). expected = c_seq c \<and> c_query_id c = queryID)"

definition gapRows :: "DB \<Rightarrow> int \<Rightarrow> int \<Rightarrow> int list" where
  "gapRows db queryID now =
     rowOrder db
       (concat (map (\<lambda>r. filter (\<lambda>expected. \<not> hasCollection db queryID expected)
                             [0 .. lastSeq r now])
                    (filter (\<lambda>r. ID r = queryID) (queries db))))"

text \<open>
  The columns \<open>id\<close>, \<open>query_id\<close> and \<open>seq\<close> are 32-bit integers: a statement with a
  bigger number for one of them fails.
\<close>

definition int4 :: "int \<Rightarrow> bool" where
  "int4 n = (- (2 ^ 31) \<le> n \<and> n < 2 ^ 31)"

definition FindCollectionGaps :: "DB \<Rightarrow> int \<Rightarrow> Time \<Rightarrow> (error + int list) \<times> DB" where
  "FindCollectionGaps db queryID now =
     (case NewConn db of (f, db') \<Rightarrow>
        if f = ConnectFault then (Inl ConnectError, db')
        else if f = QueryFault \<or> \<not> int4 queryID then (Inl QueryError, db')
        else if f = CollectFault then (Inl CollectRowsError, db')
        else (Inr (gapRows db' queryID (pgTimestamptz now)), db'))"

subsection \<open>WriteCollectionSeq\<close>

definition sameKey :: "int \<Rightarrow> int \<Rightarrow> Collection \<Rightarrow> bool" where
  "sameKey queryID seq c = (c_query_id c = queryID \<and> c_seq c = seq)"

text \<open>
  The insert statement. Without \<open>force\<close> a row with the same key violates the primary
  key; with \<open>force\<close> the statement ends in \<open>on conflict(query_id,seq) do update set
  value=excluded.value\<close> and the row takes the new value.
\<close>

definition insertCollection ::
  "DB \<Rightarrow> int \<Rightarrow> int \<Rightarrow> real \<Rightarrow> bool \<Rightarrow> pgerror + DB" where
  "insertCollection db queryID seq val force =
     (if \<not> int4 queryID \<or> \<not> int4 seq then Inl OutOfRange
      else if \<exists>c \<in> set (collections db). sameKey queryID seq c then
        (if force then
           Inr (db\<lparr>collections :=
                 map (\<lambda>c. if sameKey queryID seq c then c\<lparr>c_value := val\<rparr> else c)
                     (collections db)\<rparr>)
         else Inl UniqueViolation)
      else if \<not> (\<exists>r \<in> set (queries db). ID r = queryID) then Inl ForeignKeyViolation
      else Inr (db\<lparr>collections :=
                  collections db @ [\<lparr>c_query_id = queryID, c_seq = seq, c_value = val\<rparr>]\<rparr>))"

text \<open>The transaction lands as a whole or not at all: every error leaves the tables alone.\<close>

definition WriteCollectionSeq ::
  "DB \<Rightarrow> int \<Rightarrow> int \<Rightarrow> real \<Rightarrow> bool \<Rightarrow> error option \<times> DB" where
  "WriteCollectionSeq db queryID seq val force =
     (case NewConn db of (f, db') \<Rightarrow>
        if f = ConnectFault then (Some ConnectError, db')
        else if f = BeginFault then (Some BeginError, db')
        else if f = ExecFault then (Some (ExecError ConnectionLost), db')
        else (case insertCollection db' queryID seq val force of
                Inl e \<Rightarrow> (Some (ExecError e), db')
              | Inr db'' \<Rightarrow>
                  if f = CommitFault then (Some CommitError, db') else (None, db'')))"

subsection \<open>FetchActiveQueries\<close>

text \<open>
  The queries whose \<open>finish\<close> is null or after the database's \<open>now()\<close>; the select list
  puts \<open>NULL\<close> where \<open>Finish\<close> is scanned.
\<close>

definition FetchActiveQueries :: "DB \<Rightarrow> Time \<Rightarrow> (error + Query list) \<times> DB" where
  "FetchActiveQueries db dbnow =
     (case NewConn db of (f, db') \<Rightarrow>
        if f = ConnectFault then (Inl ConnectError, db')
        else if f = QueryFault then (Inl QueryError, db')
        else if f = CollectFault then (Inl CollectRowsError, db')
        else (Inr (map (\<lambda>r. r\<lparr>Finish := None\<rparr>)
                    (filter (\<lambda>r. case Finish r of None \<Rightarrow> True | Some f \<Rightarrow> dbnow < f)
                       (queries db'))), db'))"

section \<open>Secrets (secrets.go)\<close>

text \<open>\<open>%d\<close> of \<open>fmt.Sprintf\<close>: the decimal digits of an integer.\<close>

fun natDigits :: "nat \<Rightarrow> string" where
  "natDigits n =
     (if n < 10 then [''0123456789'' ! n]
      else natDigits (n div 10) @ [''0123456789'' ! (n mod 10)])"

declare natDigits.simps [simp del]

definition formatInt :: "int \<Rightarrow> string" where
  "formatInt i = (if i < 0 then CHR ''-'' # natDigits (nat (- i)) else natDigits (nat i))"

definition envPrefix :: string where
  "envPrefix = ''CARACOL_''"

text \<open>
  The names of the environment variables of the provider \<open>pid\<close> (\<open>id\<close> in the source). The Go map is an association
  list here; \<open>Secrets\<close> looks the variables up in this order, where Go's iteration order is
  not fixed (it only decides which missing variable is reported first).
\<close>

definition SecretEnvVarNames :: "int \<Rightarrow> AuthType \<Rightarrow> error + (SecretType \<times> string) list" where
  "SecretEnvVarNames pid authType =
     (if authType = AuthTypeBearerToken then
        Inr [(SecretTypeBearerToken, envPrefix @ ''PROVIDER'' @ formatInt pid @ ''_BEARER_TOKEN'')]
      else if authType = AuthTypeBasicAuth then
        Inr [(SecretTypeUsername, envPrefix @ ''PROVIDER'' @ formatInt pid @ ''_USERNAME''),
             (SecretTypePassword, envPrefix @ ''PROVIDER'' @ formatInt pid @ ''_PASSWORD'')]
      else Inl (UnsupportedAuthType authType))"

type_synonym Env = "string \<rightharpoonup> string"

text \<open>The cache of \<open>SecretStore\<close>: a map from the provider id; a nil map is the empty map.\<close>

type_synonym SecretStore = "int \<rightharpoonup> ProviderSecrets"

fun lookupVars :: "Env \<Rightarrow> (SecretType \<times> string) list \<Rightarrow> ProviderSecrets \<Rightarrow> error + ProviderSecrets" where
  "lookupVars env [] s = Inr s"
| "lookupVars env ((ty, name) # vars) s =
     (case env name of
        None \<Rightarrow> Inl (MissingEnvironmentVariable name)
      | Some val \<Rightarrow> lookupVars env vars (s(ty \<mapsto> val)))"

definition Secrets ::
  "SecretStore \<Rightarrow> Env \<Rightarrow> int \<Rightarrow> AuthType \<Rightarrow> (error + ProviderSecrets) \<times> SecretStore" where
  "Secrets p env pid authType =
     (case p pid of
        Some s \<Rightarrow> (Inr s, p)
      | None \<Rightarrow>
          (case SecretEnvVarNames pid authType of
             Inl err \<Rightarrow> (Inl err, p)
           | Inr vars \<Rightarrow>
               (case lookupVars env vars Map.empty of
                  Inl err \<Rightarrow> (Inl err, p)
                | Inr s \<Rightarrow> (Inr s, p(pid \<mapsto> s)))))"

text \<open>
  The store after a sequence of calls of \<open>Secrets\<close>, each with the environment of its
  moment, a provider id and an auth kind: the life of the store in a process.
\<close>

fun secretsAfter :: "(Env \<times> int \<times> AuthType) list \<Rightarrow> SecretStore \<Rightarrow> SecretStore" where
  "secretsAfter [] p = p"
| "secretsAfter ((env, pid, authType) # calls) p =
     secretsAfter calls (snd (Secrets p env pid authType))"

section \<open>The query monitor (daemon.go)\<close>

text \<open>
  A monitor holds its query, the secrets and two counters; the database it points to is
  passed along beside it. The context is the script of its waits: the head says whether
  the context is cancelled during the next jittered wait, and an empty script means that
  it is never cancelled. Log lines are not modelled.
\<close>

record QueryMonitor =
  query :: Query
  ps :: ProviderSecrets
  collectionCounter :: nat
  errorCounter :: nat

type_synonym Context = "bool list"


text \<open>
  The state of a pass: the monitor, the database, the context and \<open>errsEncountered\<close>.
\<close>

record Pass =
  monitor :: QueryMonitor
  db :: DB
  ctx :: Context
  errsEncountered :: nat




section \<open>The query collector (daemon.go)\<close>

text \<open>
  \<open>monitors\<close> is the registry (a \<open>sync.Map\<close> from the query id). \<open>tasks\<close> are the
  goroutines started by the collector that have not returned yet: the live monitors.
\<close>

record QueryCollector =
  ss :: SecretStore
  monitors :: "int \<rightharpoonup> QueryMonitor"
  activeQueriesGauge :: int
  monitorGauge :: int
  tasks :: "QueryMonitor list"

text \<open>
  \<open>sync.Map.LoadOrStore\<close>: the value under the key when there is one, and \<open>loaded\<close>;
  otherwise the given value is stored and returned. The library makes it one atomic step.
\<close>

definition LoadOrStore :: "('k \<rightharpoonup> 'v) \<Rightarrow> 'k \<Rightarrow> 'v \<Rightarrow> 'v \<times> bool \<times> ('k \<rightharpoonup> 'v)" where
  "LoadOrStore m key val =
     (case m key of
        Some actual \<Rightarrow> (actual, True, m)
      | None \<Rightarrow> (val, False, m(key \<mapsto> val)))"

text \<open>The body of the loop of \<open>monitorActiveQueries\<close> for one active query.\<close>

definition monitorActiveQuery :: "Env \<Rightarrow> Query \<Rightarrow> QueryCollector \<Rightarrow> QueryCollector" where
  "monitorActiveQuery env q qc =
     (case Secrets (ss qc) env (ProviderID q) (AuthType q) of
        (Inl err, ss') \<Rightarrow> qc\<lparr>ss := ss'\<rparr>
      | (Inr secrets, ss') \<Rightarrow>
          (let qm = \<lparr>query = q, ps = secrets, collectionCounter = 0, errorCounter = 0\<rparr>
           in case LoadOrStore (monitors qc) (ID (query qm)) qm of
                (actual, running, monitors') \<Rightarrow>
                  if \<not> running then
                    qc\<lparr>ss := ss', monitors := monitors', monitorGauge := monitorGauge qc + 1,
                       tasks := tasks qc @ [qm]\<rparr>
                  else qc\<lparr>ss := ss', monitors := monitors'\<rparr>))"

fun monitorEach :: "Env \<Rightarrow> Query list \<Rightarrow> QueryCollector \<Rightarrow> QueryCollector" where
  "monitorEach env [] qc = qc"
| "monitorEach env (q # qs) qc = monitorEach env qs (monitorActiveQuery env q qc)"

text \<open>The function returns \<open>nil\<close> on every path, also when the queries cannot be fetched.\<close>

definition monitorActiveQueries ::
  "Env \<Rightarrow> Time \<Rightarrow> QueryCollector \<Rightarrow> DB \<Rightarrow> error option \<times> QueryCollector \<times> DB" where
  "monitorActiveQueries env dbnow qc d =
     (case FetchActiveQueries d dbnow of
        (Inl err, d') \<Rightarrow> (None, qc, d')
      | (Inr qs, d') \<Rightarrow>
          (None, monitorEach env qs (qc\<lparr>activeQueriesGauge := int (length qs)\<rparr>), d'))"

text \<open>
  The end of the goroutine of the \<open>n\<close>-th live monitor: its deferred calls lower the
  gauge and delete the entry of its query id from the registry, and the task is gone.
\<close>

definition monitorExit :: "nat \<Rightarrow> QueryCollector \<Rightarrow> QueryCollector" where
  "monitorExit n qc =
     (let qm = tasks qc ! n
      in qc\<lparr>monitorGauge := monitorGauge qc - 1,
            monitors := (monitors qc)(ID (query qm) := None),
            tasks := take n (tasks qc) @ drop (Suc n) (tasks qc)\<rparr>)"

text \<open>
  What can happen to a collector, one atomic step at a time: the loop body runs for some
  query (of any pass, under any environment), or a live monitor returns. Passes that run
  one after the other or at the same time are sequences of such steps.
\<close>

datatype event = Iteration Env Query | Return nat

fun step :: "event \<Rightarrow> QueryCollector \<Rightarrow> QueryCollector" where
  "step (Iteration env q) qc = monitorActiveQuery env q qc"
| "step (Return n) qc = (if n < length (tasks qc) then monitorExit n qc else qc)"

fun run :: "event list \<Rightarrow> QueryCollector \<Rightarrow> QueryCollector" where
  "run [] qc = qc"
| "run (e # es) qc = run es (step e qc)"

text \<open>The collector of \<open>Daemon\<close>: a new secret store and an empty registry.\<close>

definition newCollector :: QueryCollector where
  "newCollector =
     \<lparr>ss = Map.empty, monitors = Map.empty, activeQueriesGauge = 0, monitorGauge = 0,
      tasks = []\<rparr>"

section \<open>The spec's units and the query of its examples\<close>

text \<open>
  The unit table as the spec words it (hourly = 1h, daily = 24h, weekly = 168h), to compare
  the code with. No unit for any other interval kind.
\<close>

definition specUnit :: "QueryInterval \<Rightarrow> Duration option" where
  "specUnit i =
     (if i = ''hourly'' then Some (1 * Hour)
      else if i = ''daily'' then Some (24 * Hour)
      else if i = ''weekly'' then Some (168 * Hour)
      else None)"

text \<open>The hourly query of the end-to-end examples: it starts at 2024-01-01T00:00:00Z.\<close>

definition exampleQuery :: Query where
  "exampleQuery =
     \<lparr>ID = 1, Name = ''example'', Query = ''up'', Interval = QueryIntervalHourly,
      Start = 1704067200000000000, Finish = None, QueryType = QueryTypePrometheus,
      Dataset = ''ds'', ProviderID = 1, ApiType = ApiTypeGrafanaCloud,
      ApiURL = ''https://example.org'', AuthType = AuthTypeBearerToken\<rparr>"

text \<open>
  A database that holds the example query and no collected value; its engine returns the
  rows of the series in the order of the series.
\<close>

definition exampleDB :: DB where
  "exampleDB =
     \<lparr>queries = [exampleQuery], collections = [], faults = [], rowOrder = (\<lambda>rows. rows)\<rparr>"

text \<open>
  A database that holds the example query as a daily query and a value for its sequence
  number 1; its engine returns the rows of a result in reverse.
\<close>

definition exampleDailyDB :: DB where
  "exampleDailyDB =
     \<lparr>queries = [exampleQuery\<lparr>Interval := QueryIntervalDaily\<rparr>],
      collections = [\<lparr>c_query_id = 1, c_seq = 1, c_value = 1 / 2\<rparr>], faults = [],
      rowOrder = rev\<rparr>"

text \<open>Backends whose Grafana querier answers every request with the given raw points.\<close>

definition exampleBackends :: "DataPoint list \<Rightarrow> Backends" where
  "exampleBackends points =
     \<lparr>NewGrafanaCloudQuerier =
        (\<lambda>api dsuid dstype bearerToken. Inr (\<lambda>query fromTime toTime interval. Inr points)),
      NewElasticSearchAggregateQuerier = (\<lambda>api index username password. Inl ''unused''),
      NewCloudWatchQuerier = (\<lambda>region accessKeyID secretAccessKey. Inl ''unused'')\<rparr>"



text \<open>An environment with the variables of provider 1 for both auth kinds.\<close>

definition exampleEnv :: Env where
  "exampleEnv =
     [''CARACOL_PROVIDER1_BEARER_TOKEN'' \<mapsto> ''token'',
      ''CARACOL_PROVIDER1_USERNAME'' \<mapsto> ''user'',
      ''CARACOL_PROVIDER1_PASSWORD'' \<mapsto> ''pass'']"

text \<open>
  The invariant of the registry: the live monitors have pairwise different query ids and
  each of them is registered.
\<close>

definition registered :: "QueryCollector \<Rightarrow> bool" where
  "registered qc =
     (distinct (map (\<lambda>m. ID (query m)) (tasks qc))
      \<and> (\<lambda>m. ID (query m)) ` set (tasks qc) \<subseteq> dom (monitors qc))"


section \<open>Arithmetic of durations\<close>

lemma wrap64_id: "- (2 ^ 63) \<le> x \<Longrightarrow> x < 2 ^ 63 \<Longrightarrow> wrap64 x = x"
  by (simp add: wrap64_def)

lemma Sub_exact:
  assumes "minDuration \<le> t - u" and "t - u \<le> maxDuration"
  shows "Sub t u = t - u"
proof -
  have "wrap64 (t - u) = t - u"
    using assms by (intro wrap64_id) (simp_all add: minDuration_def maxDuration_def)
  then show ?thesis by (simp add: Sub_def Equal_def Add_def)
qed

lemma Sub_max:
  assumes "maxDuration < t - u"
  shows "Sub t u = maxDuration"
proof -
  have "wrap64 (t - u) < 2 ^ 63" by (simp add: wrap64_def)
  then have "wrap64 (t - u) \<noteq> t - u" using assms by (simp add: maxDuration_def)
  moreover have "\<not> t < u" using assms by (simp add: maxDuration_def)
  ultimately show ?thesis by (auto simp add: Sub_def Equal_def Add_def Let_def)
qed

lemma quo_nonneg: "0 \<le> a \<Longrightarrow> 0 < b \<Longrightarrow> quo a b = a div b"
  by (cases "a = 0") (simp_all add: quo_def)

lemma specUnit_cases:
  assumes "specUnit i = Some u"
  shows "(i = QueryIntervalHourly \<and> u = Hour) \<or> (i = QueryIntervalDaily \<and> u = 24 * Hour)
       \<or> (i = QueryIntervalWeekly \<and> u = 168 * Hour)"
  using assms
  by (auto simp add: specUnit_def QueryIntervalHourly_def QueryIntervalDaily_def
      QueryIntervalWeekly_def split: if_splits)

lemma DispatchWindow_exact:
  assumes u: "specUnit (Interval q) = Some u" and seq: "1 \<le> seq"
    and fit: "(seq - 1) * u \<le> maxDuration"
  shows "DispatchWindow q seq = Inr (Start q + (seq - 1) * u, Start q + (seq - 1) * u + u)"
proof -
  consider (h) "Interval q = QueryIntervalHourly" "u = Hour"
    | (d) "Interval q = QueryIntervalDaily" "u = 24 * Hour"
    | (w) "Interval q = QueryIntervalWeekly" "u = 168 * Hour"
    using specUnit_cases [OF u] by blast
  then show ?thesis
  proof cases
    case h
    then show ?thesis
      using seq fit
      by (simp add: DispatchWindow_def dmul_def Add_def Let_def Hour_def maxDuration_def
          wrap64_id)
  next
    case d
    then show ?thesis
      using seq fit
      by (simp add: DispatchWindow_def dmul_def Add_def Let_def Hour_def maxDuration_def
          wrap64_id QueryIntervalHourly_def QueryIntervalDaily_def)
  next
    case w
    then show ?thesis
      using seq fit
      by (simp add: DispatchWindow_def dmul_def Add_def Let_def Hour_def maxDuration_def
          wrap64_id QueryIntervalHourly_def QueryIntervalDaily_def QueryIntervalWeekly_def)
  qed
qed

lemma SeqAfter_exact:
  assumes u: "specUnit (Interval q) = Some u" and t: "Start q \<le> t"
    and fit: "t - Start q \<le> maxDuration"
  shows "SeqAfter q t = 1 + (t - Start q) div u"
proof -
  have s: "Sub t (Start q) = t - Start q"
    using t fit by (intro Sub_exact) (simp_all add: minDuration_def)
  have nn: "0 \<le> t - Start q" using t by simp
  consider (h) "Interval q = QueryIntervalHourly" "u = Hour"
    | (d) "Interval q = QueryIntervalDaily" "u = 24 * Hour"
    | (w) "Interval q = QueryIntervalWeekly" "u = 168 * Hour"
    using specUnit_cases [OF u] by blast
  then show ?thesis
  proof cases
    case h
    then show ?thesis using nn by (simp add: SeqAfter_def s quo_nonneg Hour_def)
  next
    case d
    then show ?thesis using nn
      by (simp add: SeqAfter_def s quo_nonneg Hour_def QueryIntervalHourly_def
          QueryIntervalDaily_def)
  next
    case w
    then show ?thesis using nn
      by (simp add: SeqAfter_def s quo_nonneg Hour_def QueryIntervalHourly_def
          QueryIntervalDaily_def QueryIntervalWeekly_def)
  qed
qed

lemma specUnit_pos: "specUnit i = Some u \<Longrightarrow> 0 < u"
  by (auto simp add: specUnit_def Hour_def split: if_splits)

section \<open>The dispatch window\<close>

text \<open>
  Claim C3, amended. For every start, every supported interval kind with unit \<open>u\<close> and
  every \<open>seq \<ge> 1\<close> whose offset \<open>(seq - 1) * u\<close> fits a 64-bit Duration, the window of
  \<open>DispatchQuery\<close> is \<open>from = start + (seq - 1) * u\<close> and \<open>to = from + u\<close>: exactly one unit
  long. When \<open>seq * u\<close> fits as well, the window of \<open>seq + 1\<close> starts where the window of
  \<open>seq\<close> closes, so consecutive windows are back-to-back and do not overlap.
\<close>

theorem DispatchWindow_one_unit:
  assumes "specUnit (Interval q) = Some u" and "1 \<le> seq" and "(seq - 1) * u \<le> maxDuration"
  shows "DispatchWindow q seq = Inr (Start q + (seq - 1) * u, Start q + (seq - 1) * u + u)
       \<and> (seq * u \<le> maxDuration \<longrightarrow>
            DispatchWindow q (seq + 1) = Inr (Start q + (seq - 1) * u + u, Start q + (seq - 1) * u + u + u))"
proof (intro conjI impI)
  show "DispatchWindow q seq = Inr (Start q + (seq - 1) * u, Start q + (seq - 1) * u + u)"
    using assms by (rule DispatchWindow_exact)
next
  assume "seq * u \<le> maxDuration"
  then have "DispatchWindow q (seq + 1) = Inr (Start q + (seq + 1 - 1) * u, Start q + (seq + 1 - 1) * u + u)"
    using assms(1,2) by (intro DispatchWindow_exact) simp_all
  then show "DispatchWindow q (seq + 1) = Inr (Start q + (seq - 1) * u + u, Start q + (seq - 1) * u + u + u)"
    by (simp add: algebra_simps)
qed

text \<open>The windows of the sequence numbers 3 and 4 of the example query.\<close>

theorem DispatchWindow_one_unit_witness:
  "DispatchWindow exampleQuery 3 = Inr (1704067200000000000 + 2 * Hour, 1704067200000000000 + 3 * Hour)
   \<and> DispatchWindow exampleQuery 4 = Inr (1704067200000000000 + 3 * Hour, 1704067200000000000 + 4 * Hour)"
proof -
  have u: "specUnit (Interval exampleQuery) = Some Hour"
    by (simp add: specUnit_def exampleQuery_def QueryIntervalHourly_def)
  have fit: "(3 - 1) * Hour \<le> maxDuration" and fit': "3 * Hour \<le> maxDuration"
    by (simp_all add: Hour_def maxDuration_def)
  show ?thesis
    using DispatchWindow_one_unit [OF u _ fit] fit' by (simp add: exampleQuery_def)
qed

text \<open>
  Claim C3 as stated fails where the offset overflows a Duration: for the hourly example
  query and \<open>seq = 2562049\<close> the product \<open>2562048 * Hour\<close> wraps around and the window
  starts about 292 years before the query's start, not at \<open>start + (seq - 1) * unit\<close>.
\<close>

theorem DispatchWindow_overflow_counterexample:
  "specUnit (Interval exampleQuery) = Some Hour \<and> (1::int) \<le> 2562049
   \<and> DispatchWindow exampleQuery 2562049
       \<noteq> Inr (Start exampleQuery + (2562049 - 1) * Hour, Start exampleQuery + (2562049 - 1) * Hour + Hour)
   \<and> DispatchWindow exampleQuery 2562049 = Inr (- 7519304073709551616, - 7519300473709551616)"
  by (simp add: specUnit_def exampleQuery_def QueryIntervalHourly_def DispatchWindow_def
      dmul_def wrap64_def Add_def Hour_def)

lemma div_mult_bounds:
  fixes x u :: int
  assumes "0 < u"
  shows "(x div u) * u \<le> x" and "x < (x div u) * u + u"
proof -
  have "x = (x div u) * u + x mod u" by simp
  moreover have "0 \<le> x mod u" "x mod u < u" using assms by simp_all
  ultimately show "(x div u) * u \<le> x" and "x < (x div u) * u + u" by linarith+
qed

lemma less_mult_iff_div_less:
  fixes x u s :: int
  assumes "0 < u"
  shows "x < s * u \<longleftrightarrow> x div u < s"
proof
  assume "x < s * u"
  show "x div u < s"
  proof (rule ccontr)
    assume "\<not> x div u < s"
    then have "s * u \<le> (x div u) * u" using assms by (simp add: mult_right_mono)
    also have "\<dots> \<le> x" using assms by (rule div_mult_bounds)
    finally show False using \<open>x < s * u\<close> by simp
  qed
next
  assume "x div u < s"
  then have "(x div u + 1) * u \<le> s * u" using assms by (intro mult_right_mono) simp_all
  moreover have "x < (x div u) * u + u" using assms by (rule div_mult_bounds)
  ultimately show "x < s * u" by (simp add: algebra_simps)
qed

section \<open>The next sequence number\<close>

text \<open>
  Claim C4, amended. For every supported interval kind with unit \<open>u\<close> and every time \<open>t\<close>
  with \<open>start \<le> t\<close> and \<open>t - start\<close> inside the range of a Duration, \<open>SeqAfter\<close> is
  \<open>1 + floor ((t - start) / u)\<close>. Its window contains \<open>t\<close> (\<open>from \<le> t < to\<close>), and it is the
  smallest sequence number whose window closes strictly after \<open>t\<close>: the window of a
  sequence number \<open>s \<ge> 1\<close> closes after \<open>t\<close> exactly when \<open>SeqAfter \<le> s\<close>.
\<close>

theorem SeqAfter_floor:
  assumes u: "specUnit (Interval q) = Some u" and t: "Start q \<le> t"
    and fit: "t - Start q \<le> maxDuration"
  shows "SeqAfter q t = 1 + (t - Start q) div u
       \<and> DispatchWindow q (SeqAfter q t)
           = Inr (Start q + ((t - Start q) div u) * u, Start q + ((t - Start q) div u) * u + u)
       \<and> Start q + ((t - Start q) div u) * u \<le> t
       \<and> t < Start q + ((t - Start q) div u) * u + u
       \<and> (1 \<le> s \<and> (s - 1) * u \<le> maxDuration \<and> DispatchWindow q s = Inr (a, b)
            \<longrightarrow> (t < b) = (SeqAfter q t \<le> s))"
proof -
  let ?k = "(t - Start q) div u"
  have pos: "0 < u" using u by (rule specUnit_pos)
  have sa: "SeqAfter q t = 1 + ?k" using u t fit by (rule SeqAfter_exact)
  have k0: "0 \<le> ?k" using t pos by (simp add: pos_imp_zdiv_nonneg_iff)
  have lo: "?k * u \<le> t - Start q" and hi: "t - Start q < ?k * u + u"
    using div_mult_bounds [OF pos, of "t - Start q"] by simp_all
  have win: "DispatchWindow q (SeqAfter q t) = Inr (Start q + ?k * u, Start q + ?k * u + u)"
  proof -
    have "(1 + ?k - 1) * u \<le> maxDuration" using lo fit by simp
    then have "DispatchWindow q (1 + ?k)
        = Inr (Start q + (1 + ?k - 1) * u, Start q + (1 + ?k - 1) * u + u)"
      using u k0 by (intro DispatchWindow_exact) simp_all
    then show ?thesis by (simp add: sa)
  qed
  have least: "(t < b) = (SeqAfter q t \<le> s)"
    if "1 \<le> s" "(s - 1) * u \<le> maxDuration" "DispatchWindow q s = Inr (a, b)"
  proof -
    have "DispatchWindow q s = Inr (Start q + (s - 1) * u, Start q + (s - 1) * u + u)"
      using u that(1,2) by (rule DispatchWindow_exact)
    then have b: "b = Start q + s * u" using that(3) by (simp add: algebra_simps)
    have "(t < b) = (t - Start q < s * u)" using b by auto
    also have "\<dots> = (?k < s)" using pos by (rule less_mult_iff_div_less)
    also have "\<dots> = (SeqAfter q t \<le> s)" using sa by auto
    finally show ?thesis .
  qed
  show ?thesis using sa win lo hi least by auto
qed

text \<open>Five nanoseconds after the third full hour of the example query.\<close>

theorem SeqAfter_floor_witness:
  "SeqAfter exampleQuery (1704067200000000000 + 3 * Hour + 5) = 4
   \<and> DispatchWindow exampleQuery 4
        = Inr (1704067200000000000 + 3 * Hour, 1704067200000000000 + 4 * Hour)"
proof -
  have u: "specUnit (Interval exampleQuery) = Some Hour"
    by (simp add: specUnit_def exampleQuery_def QueryIntervalHourly_def)
  have st: "Start exampleQuery = 1704067200000000000"
    by (simp add: exampleQuery_def)
  have t: "Start exampleQuery \<le> 1704067200000000000 + 3 * Hour + 5"
    and fit: "1704067200000000000 + 3 * Hour + 5 - Start exampleQuery \<le> maxDuration"
    by (simp_all add: st Hour_def maxDuration_def)
  have k: "(1704067200000000000 + 3 * Hour + 5 - Start exampleQuery) div Hour = 3"
    by (simp add: st Hour_def)
  from SeqAfter_floor [OF u t fit, of 4 0 0]
  have "SeqAfter exampleQuery (1704067200000000000 + 3 * Hour + 5) = 1 + 3"
    and "DispatchWindow exampleQuery (SeqAfter exampleQuery (1704067200000000000 + 3 * Hour + 5))
        = Inr (Start exampleQuery + 3 * Hour, Start exampleQuery + 3 * Hour + Hour)"
    unfolding k by blast+
  then show ?thesis by (simp add: st)
qed

text \<open>
  Claim C4 as stated fails on an interval boundary: at \<open>t = start + 3h\<close> \<open>SeqAfter\<close> is 4,
  whose window closes at \<open>start + 4h\<close>, while the window that closes exactly at \<open>t\<close> is the
  one of sequence number 3. It also fails beyond the range of a Duration: at
  \<open>t = start + 2562048h\<close> \<open>Time.Sub\<close> saturates and \<open>SeqAfter\<close> is 2562048, not 2562049.
\<close>

theorem SeqAfter_boundary_counterexample:
  "SeqAfter exampleQuery (Start exampleQuery + 3 * Hour) = 4
   \<and> DispatchWindow exampleQuery 4
        = Inr (Start exampleQuery + 3 * Hour, Start exampleQuery + 4 * Hour)
   \<and> DispatchWindow exampleQuery 3
        = Inr (Start exampleQuery + 2 * Hour, Start exampleQuery + 3 * Hour)
   \<and> Start exampleQuery + 4 * Hour \<noteq> Start exampleQuery + 3 * Hour
   \<and> SeqAfter exampleQuery (Start exampleQuery + 2562048 * Hour) = 2562048
   \<and> 1 + (Start exampleQuery + 2562048 * Hour - Start exampleQuery) div Hour = 2562049"
  by (simp add: exampleQuery_def QueryIntervalHourly_def SeqAfter_def Sub_def Equal_def
      DispatchWindow_def dmul_def wrap64_def Add_def Hour_def quo_def maxDuration_def)

section \<open>Unsupported interval kinds\<close>

text \<open>
  Claim C8, amended. For every unsupported interval kind \<open>SeqTime\<close> returns the zero time
  and \<open>SeqAfter\<close> returns \<open>-1\<close>: both return a value, neither can report an error. Only
  the window computation of \<open>DispatchQuery\<close> fails, with the unsupported-interval error.
\<close>

theorem unsupported_interval_sentinels:
  assumes "Interval q \<noteq> QueryIntervalHourly" and "Interval q \<noteq> QueryIntervalDaily"
    and "Interval q \<noteq> QueryIntervalWeekly"
  shows "SeqTime q seq = zeroTime \<and> SeqAfter q t = - 1
       \<and> DispatchWindow q seq = Inl (UnsupportedQueryInterval (Interval q))"
  using assms by (simp add: SeqTime_def SeqAfter_def DispatchWindow_def)

text \<open>The example query with the interval kind \<open>monthly\<close>.\<close>

theorem unsupported_interval_sentinels_witness:
  "SeqTime (exampleQuery\<lparr>Interval := ''monthly''\<rparr>) 5 = zeroTime
   \<and> SeqAfter (exampleQuery\<lparr>Interval := ''monthly''\<rparr>) (1704067200000000000 + 3 * Hour) = - 1
   \<and> DispatchWindow (exampleQuery\<lparr>Interval := ''monthly''\<rparr>) 5
        = Inl (UnsupportedQueryInterval ''monthly'')"
  using unsupported_interval_sentinels [of "exampleQuery\<lparr>Interval := ''monthly''\<rparr>" 5
      "1704067200000000000 + 3 * Hour"]
  by (simp add: QueryIntervalHourly_def QueryIntervalDaily_def QueryIntervalWeekly_def)

text \<open>
  Claim C8 as stated fails: for the interval kind \<open>monthly\<close> both operations of the
  sequence model return a value.
\<close>

theorem unsupported_interval_counterexample:
  "SeqTime (exampleQuery\<lparr>Interval := ''monthly''\<rparr>) 5 = - 62135596800000000000
   \<and> SeqAfter (exampleQuery\<lparr>Interval := ''monthly''\<rparr>) (1704067200000000000 + 3 * Hour) = - 1"
  by (simp add: SeqTime_def SeqAfter_def zeroTime_def QueryIntervalHourly_def
      QueryIntervalDaily_def QueryIntervalWeekly_def)

section \<open>Selecting the data point\<close>

lemma selectPoint_find:
  "selectPoint seq toTime points =
     (case find (\<lambda>pt. Time pt = toTime) points of
        None \<Rightarrow> []
      | Some pt \<Rightarrow> [\<lparr>Seq = seq, Time = Time pt, Value = Value pt\<rparr>])"
  by (induction points) (simp_all add: Equal_def)

lemma selectPoint_length: "length (selectPoint seq toTime points) \<le> Suc 0"
  by (induction points) simp_all

lemma selectPoint_member:
  "pt \<in> set (selectPoint seq toTime points) \<Longrightarrow> Seq pt = seq \<and> Time pt = toTime"
  by (induction points) (auto simp add: Equal_def split: if_splits)

text \<open>
  Claim C5. Whatever raw points the backend returns for the window, \<open>DispatchQuery\<close>
  returns the first point whose time equals the closing edge \<open>toTime\<close> of the window, alone
  and under the requested sequence number, and drops every other point. When no point
  has that time the result is the empty list and no error.
\<close>

theorem DispatchQuery_selects_closing_point:
  assumes "DispatchWindow qry seq = Inr (fromTime, toTime)"
    and "selectQuerier B qry secrets = Inr querier"
    and "querier (Query qry) fromTime toTime (Interval qry) = Inr points"
  shows "DispatchQuery B qry seq secrets =
           Inr (case find (\<lambda>pt. Time pt = toTime) points of
                  None \<Rightarrow> []
                | Some pt \<Rightarrow> [\<lparr>Seq = seq, Time = Time pt, Value = Value pt\<rparr>])"
  using assms by (simp add: DispatchQuery_def selectPoint_find)

text \<open>
  The backend returns the point of the window's start, the point of its end and an
  unrelated point: only the point of the end is selected.
\<close>

theorem DispatchQuery_selects_closing_point_witness:
  "DispatchQuery
     (exampleBackends
        [\<lparr>Seq = 0, Time = 1704067200000000000 + 2 * Hour, Value = 7\<rparr>,
         \<lparr>Seq = 0, Time = 1704067200000000000 + 3 * Hour, Value = 42\<rparr>,
         \<lparr>Seq = 0, Time = 1704067200000000000 + 9 * Hour, Value = 13\<rparr>])
     exampleQuery 3 Map.empty
   = Inr [\<lparr>Seq = 3, Time = 1704067200000000000 + 3 * Hour, Value = 42\<rparr>]"
proof -
  let ?points = "[\<lparr>Seq = 0, Time = 1704067200000000000 + 2 * Hour, Value = 7\<rparr>,
         \<lparr>Seq = 0, Time = 1704067200000000000 + 3 * Hour, Value = 42\<rparr>,
         \<lparr>Seq = 0, Time = 1704067200000000000 + 9 * Hour, Value = 13\<rparr>]"
  let ?querier = "\<lambda>(query::string) (fromTime::Time) (toTime::Time) (interval::QueryInterval). (Inr ?points :: string + DataPoint list)"
  have w: "DispatchWindow exampleQuery 3
             = Inr (1704067200000000000 + 2 * Hour, 1704067200000000000 + 3 * Hour)"
    by (simp add: DispatchWindow_def exampleQuery_def dmul_def wrap64_def Add_def Hour_def)
  have s: "selectQuerier (exampleBackends ?points) exampleQuery Map.empty = Inr ?querier"
    by (simp add: selectQuerier_def exampleBackends_def exampleQuery_def)
  have e: "?querier (Query exampleQuery) (1704067200000000000 + 2 * Hour)
             (1704067200000000000 + 3 * Hour) (Interval exampleQuery) = Inr ?points"
    by simp
  show ?thesis
    using DispatchQuery_selects_closing_point [OF w s e] by (simp add: Hour_def)
qed

text \<open>
  Claim C10. When \<open>DispatchQuery\<close> returns without error, the list holds at most one data
  point, and the \<open>Seq\<close> of a returned point is the requested sequence number and its
  \<open>Time\<close> is the \<open>toTime\<close> of the computed window, however many raw points there were.
\<close>

theorem DispatchQuery_at_most_one_point:
  assumes "DispatchQuery B qry seq secrets = Inr points"
  shows "length points \<le> 1
       \<and> (\<forall>pt \<in> set points. Seq pt = seq
             \<and> (\<exists>fromTime toTime. DispatchWindow qry seq = Inr (fromTime, toTime) \<and> Time pt = toTime))"
  using assms
  by (auto simp add: DispatchQuery_def selectPoint_length
      split: sum.splits prod.splits dest: selectPoint_member)

text \<open>Three raw points, two of them at the closing edge.\<close>

theorem DispatchQuery_at_most_one_point_witness:
  "length [\<lparr>Seq = 3, Time = 1704067200000000000 + 3 * Hour, Value = 42\<rparr>] \<le> 1
   \<and> Seq \<lparr>Seq = 3, Time = 1704067200000000000 + 3 * Hour, Value = 42\<rparr> = 3
   \<and> (\<exists>fromTime toTime. DispatchWindow exampleQuery 3 = Inr (fromTime, toTime)
         \<and> Time \<lparr>Seq = 3, Time = 1704067200000000000 + 3 * Hour, Value = 42\<rparr> = toTime)"
proof -
  have "DispatchQuery
     (exampleBackends
        [\<lparr>Seq = 0, Time = 1704067200000000000 + 9 * Hour, Value = 13\<rparr>,
         \<lparr>Seq = 0, Time = 1704067200000000000 + 3 * Hour, Value = 42\<rparr>,
         \<lparr>Seq = 5, Time = 1704067200000000000 + 3 * Hour, Value = 43\<rparr>])
     exampleQuery 3 Map.empty
   = Inr [\<lparr>Seq = 3, Time = 1704067200000000000 + 3 * Hour, Value = 42\<rparr>]"
    by (simp add: DispatchQuery_def DispatchWindow_def selectQuerier_def exampleBackends_def
        exampleQuery_def dmul_def wrap64_def Add_def Equal_def Hour_def)
  from DispatchQuery_at_most_one_point [OF this] show ?thesis by simp
qed

section \<open>Writing a collected value\<close>

lemma NewConn_no_faults: "faults d = [] \<Longrightarrow> NewConn d = (NoFault, d)"
  by (simp add: NewConn_def)

lemma insertCollection_faults:
  "insertCollection d queryID seq val force = Inr d' \<Longrightarrow> faults d' = faults d"
  by (auto simp add: insertCollection_def split: if_splits)

lemma insertCollection_new_row:
  assumes "insertCollection d queryID seq val False = Inr d'"
  shows "filter (sameKey queryID seq) (collections d')
           = [\<lparr>c_query_id = queryID, c_seq = seq, c_value = val\<rparr>]"
    and "int4 queryID" and "int4 seq"
proof -
  from assms have none: "\<forall>c \<in> set (collections d). \<not> sameKey queryID seq c"
    and d': "d' = d\<lparr>collections :=
                  collections d @ [\<lparr>c_query_id = queryID, c_seq = seq, c_value = val\<rparr>]\<rparr>"
    and r: "int4 queryID" "int4 seq"
    by (auto simp add: insertCollection_def split: if_splits)
  from none have "filter (sameKey queryID seq) (collections d) = []"
    by (simp add: filter_empty_conv)
  then show "filter (sameKey queryID seq) (collections d')
           = [\<lparr>c_query_id = queryID, c_seq = seq, c_value = val\<rparr>]"
    by (simp add: d' sameKey_def)
  show "int4 queryID" and "int4 seq" by (rule r)+
qed

lemma filter_map_update:
  "filter (sameKey queryID seq)
     (map (\<lambda>c. if sameKey queryID seq c then c\<lparr>c_value := val\<rparr> else c) cs)
   = map (\<lambda>c. c\<lparr>c_value := val\<rparr>) (filter (sameKey queryID seq) cs)"
  by (induction cs) (simp_all add: sameKey_def)

text \<open>
  Claim C2, amended. On a healthy connection, once a value is written for
  \<open>(query id, seq)\<close> with \<open>force = false\<close> there is exactly one row for that key, and every
  further write for the key with \<open>force = false\<close> fails with a violation of the primary
  key, whether the value is the stored one or another, and leaves the tables as they
  are. With \<open>force = true\<close> the write succeeds and the one row takes the new value.
\<close>

theorem WriteCollectionSeq_write_once:
  assumes nf: "faults d = []"
    and first: "WriteCollectionSeq d queryID seq val False = (None, d1)"
  shows "filter (sameKey queryID seq) (collections d1)
           = [\<lparr>c_query_id = queryID, c_seq = seq, c_value = val\<rparr>]
       \<and> WriteCollectionSeq d1 queryID seq val' False = (Some (ExecError UniqueViolation), d1)
       \<and> (\<exists>d2. WriteCollectionSeq d1 queryID seq val' True = (None, d2)
             \<and> filter (sameKey queryID seq) (collections d2)
                 = [\<lparr>c_query_id = queryID, c_seq = seq, c_value = val'\<rparr>])"
proof -
  from first nf have ins: "insertCollection d queryID seq val False = Inr d1"
    by (auto simp add: WriteCollectionSeq_def NewConn_no_faults split: sum.splits)
  have row: "filter (sameKey queryID seq) (collections d1)
           = [\<lparr>c_query_id = queryID, c_seq = seq, c_value = val\<rparr>]"
    and r: "int4 queryID" "int4 seq"
    using insertCollection_new_row [OF ins] by blast+
  have nf1: "faults d1 = []" using insertCollection_faults [OF ins] nf by simp
  have ex: "\<exists>c \<in> set (collections d1). sameKey queryID seq c"
  proof -
    have "\<lparr>c_query_id = queryID, c_seq = seq, c_value = val\<rparr>
            \<in> set (filter (sameKey queryID seq) (collections d1))"
      by (simp add: row)
    then show ?thesis by auto
  qed
  have second: "WriteCollectionSeq d1 queryID seq val' False
                  = (Some (ExecError UniqueViolation), d1)"
    using ex r by (simp add: WriteCollectionSeq_def NewConn_no_faults [OF nf1] insertCollection_def)
  let ?d2 = "d1\<lparr>collections :=
                 map (\<lambda>c. if sameKey queryID seq c then c\<lparr>c_value := val'\<rparr> else c)
                     (collections d1)\<rparr>"
  have "WriteCollectionSeq d1 queryID seq val' True = (None, ?d2)"
    using ex r by (simp add: WriteCollectionSeq_def NewConn_no_faults [OF nf1] insertCollection_def)
  moreover have "filter (sameKey queryID seq) (collections ?d2)
                 = [\<lparr>c_query_id = queryID, c_seq = seq, c_value = val'\<rparr>]"
    by (simp add: filter_map_update row)
  ultimately show ?thesis using row second by blast
qed

text \<open>The value 1/2 stored under query 1, seq 1; then the value 7 for the same key.\<close>

theorem WriteCollectionSeq_write_once_witness:
  "filter (sameKey 1 1) [\<lparr>c_query_id = 1, c_seq = 1, c_value = 1 / 2\<rparr>]
           = [\<lparr>c_query_id = 1, c_seq = 1, c_value = 1 / 2\<rparr>]
   \<and> WriteCollectionSeq (exampleDB\<lparr>collections := [\<lparr>c_query_id = 1, c_seq = 1, c_value = 1 / 2\<rparr>]\<rparr>)
        1 1 7 False
       = (Some (ExecError UniqueViolation),
          exampleDB\<lparr>collections := [\<lparr>c_query_id = 1, c_seq = 1, c_value = 1 / 2\<rparr>]\<rparr>)
   \<and> (\<exists>d2. WriteCollectionSeq
               (exampleDB\<lparr>collections := [\<lparr>c_query_id = 1, c_seq = 1, c_value = 1 / 2\<rparr>]\<rparr>)
               1 1 7 True = (None, d2)
             \<and> filter (sameKey 1 1) (collections d2)
                 = [\<lparr>c_query_id = 1, c_seq = 1, c_value = 7\<rparr>])"
proof -
  have nf: "faults exampleDB = []" by (simp add: exampleDB_def)
  have first: "WriteCollectionSeq exampleDB 1 1 (1 / 2) False
       = (None, exampleDB\<lparr>collections := [\<lparr>c_query_id = 1, c_seq = 1, c_value = 1 / 2\<rparr>]\<rparr>)"
    by (simp add: WriteCollectionSeq_def NewConn_def insertCollection_def exampleDB_def
      exampleQuery_def int4_def sameKey_def)
  show ?thesis
    using WriteCollectionSeq_write_once [OF nf first, of 7] by simp
qed

text \<open>
  Claim C2 as stated fails: the second of two identical writes is an error although the
  value does not differ.
\<close>

theorem WriteCollectionSeq_identical_counterexample:
  "faults exampleDB = []
   \<and> WriteCollectionSeq exampleDB 1 1 (1 / 2) False
       = (None, exampleDB\<lparr>collections := [\<lparr>c_query_id = 1, c_seq = 1, c_value = 1 / 2\<rparr>]\<rparr>)
   \<and> WriteCollectionSeq (exampleDB\<lparr>collections := [\<lparr>c_query_id = 1, c_seq = 1, c_value = 1 / 2\<rparr>]\<rparr>)
        1 1 (1 / 2) False
       = (Some (ExecError UniqueViolation),
          exampleDB\<lparr>collections := [\<lparr>c_query_id = 1, c_seq = 1, c_value = 1 / 2\<rparr>]\<rparr>)"
  by (simp add: WriteCollectionSeq_def NewConn_def insertCollection_def exampleDB_def
      exampleQuery_def int4_def sameKey_def)

section \<open>The gap-filling pass\<close>

















section \<open>The secret store\<close>

lemma Secrets_cached:
  "p pid = Some s \<Longrightarrow> Secrets p env pid authType = (Inr s, p)"
  by (simp add: Secrets_def)

lemma Secrets_success_caches:
  assumes "Secrets p env pid authType = (Inr s, p')"
  shows "p' pid = Some s"
  using assms by (auto simp add: Secrets_def split: option.splits sum.splits)

lemma Secrets_failure_keeps:
  assumes "Secrets p env pid authType = (Inl err, p')"
  shows "p' = p"
  using assms by (auto simp add: Secrets_def split: option.splits sum.splits)

lemma monitorActiveQuery_skip:
  assumes "fst (Secrets (ss qc) env (ProviderID q) (AuthType q)) = Inl err"
  shows "monitorActiveQuery env q qc = qc"
proof -
  obtain p' where s: "Secrets (ss qc) env (ProviderID q) (AuthType q) = (Inl err, p')"
    using assms by (cases "Secrets (ss qc) env (ProviderID q) (AuthType q)") simp
  then have "p' = ss qc" by (rule Secrets_failure_keeps)
  then show ?thesis using s by (simp add: monitorActiveQuery_def)
qed

lemma monitorEach_append:
  "monitorEach env (qs1 @ qs2) qc = monitorEach env qs2 (monitorEach env qs1 qc)"
  by (induction qs1 arbitrary: qc) simp_all

lemma Secrets_keeps_entry:
  "p pid = Some s \<Longrightarrow> snd (Secrets p env pid' authType) pid = Some s"
  by (auto simp add: Secrets_def split: option.splits sum.splits)

lemma secretsAfter_keeps_entry:
  "p pid = Some s \<Longrightarrow> secretsAfter calls p pid = Some s"
proof (induction calls arbitrary: p)
  case Nil
  then show ?case by simp
next
  case (Cons call calls)
  obtain env pid' authType where call: "call = (env, pid', authType)"
    by (cases call) auto
  have "snd (Secrets p env pid' authType) pid = Some s"
    using Cons.prems by (rule Secrets_keeps_entry)
  then show ?case by (simp add: call Cons.IH)
qed

lemma monitorActiveQuery_ss:
  "ss (monitorActiveQuery env q qc) = snd (Secrets (ss qc) env (ProviderID q) (AuthType q))"
  by (cases "Secrets (ss qc) env (ProviderID q) (AuthType q)")
     (auto simp add: monitorActiveQuery_def LoadOrStore_def Let_def
       split: sum.splits option.splits)

lemma step_keeps_entry: "ss qc pid = Some s \<Longrightarrow> ss (step e qc) pid = Some s"
  by (cases e) (simp_all add: monitorActiveQuery_ss Secrets_keeps_entry monitorExit_def Let_def)

lemma run_keeps_entry: "ss qc pid = Some s \<Longrightarrow> ss (run es qc) pid = Some s"
  by (induction es arbitrary: qc) (simp_all add: step_keeps_entry)

text \<open>
  Claim C7, amended. Provider secrets are resolved once and cached per provider id for
  the life of the process, the auth kind not being part of the key: after a call of
  \<open>Secrets\<close> that succeeded for a provider id, and after any further calls of \<open>Secrets\<close>
  for any providers, a call with that id returns the cached map, whatever the auth kind
  and the environment then are; no step of the collector or of a monitor drops an entry
  of the cache. A failed resolution caches nothing. A query whose secrets cannot be
  resolved is skipped by the pass of the collector, which goes on with the other queries
  as if the query were not listed, and the pass never returns an error.
\<close>

theorem Secrets_cached_per_provider_id:
  "(Secrets p env pid authType = (Inr s, p') \<longrightarrow>
      Secrets (secretsAfter calls p') env' pid authType' = (Inr s, secretsAfter calls p'))
   \<and> (ss qc pid = Some s \<longrightarrow> ss (run es qc) pid = Some s)
   \<and> (fst (Secrets p env pid authType) = Inl err \<longrightarrow> snd (Secrets p env pid authType) = p)
   \<and> (fst (Secrets (ss (monitorEach env qs1 qc)) env (ProviderID q) (AuthType q)) = Inl err \<longrightarrow>
        monitorEach env (qs1 @ q # qs2) qc = monitorEach env (qs1 @ qs2) qc)
   \<and> fst (monitorActiveQueries env dbnow qc d) = None"
proof (intro conjI impI)
  assume "Secrets p env pid authType = (Inr s, p')"
  then have "p' pid = Some s" by (rule Secrets_success_caches)
  then have "secretsAfter calls p' pid = Some s" by (rule secretsAfter_keeps_entry)
  then show "Secrets (secretsAfter calls p') env' pid authType' = (Inr s, secretsAfter calls p')"
    by (rule Secrets_cached)
next
  assume "ss qc pid = Some s"
  then show "ss (run es qc) pid = Some s" by (rule run_keeps_entry)
next
  assume "fst (Secrets p env pid authType) = Inl err"
  then show "snd (Secrets p env pid authType) = p"
    by (cases "Secrets p env pid authType") (auto dest: Secrets_failure_keeps)
next
  assume "fst (Secrets (ss (monitorEach env qs1 qc)) env (ProviderID q) (AuthType q)) = Inl err"
  then have "monitorActiveQuery env q (monitorEach env qs1 qc) = monitorEach env qs1 qc"
    by (rule monitorActiveQuery_skip)
  then show "monitorEach env (qs1 @ q # qs2) qc = monitorEach env (qs1 @ qs2) qc"
    by (simp add: monitorEach_append)
next
  show "fst (monitorActiveQueries env dbnow qc d) = None"
    by (simp add: monitorActiveQueries_def split: prod.splits sum.splits)
qed

lemma formatInt_1: "formatInt 1 = ''1''" 
  by (simp add: formatInt_def natDigits.simps)

lemma formatInt_2: "formatInt 2 = ''2''" 
  by (simp add: formatInt_def natDigits.simps)

lemma example_bearer:
  "Secrets Map.empty exampleEnv 1 AuthTypeBearerToken
     = (Inr [''bearer_token'' \<mapsto> ''token''], [1 \<mapsto> [''bearer_token'' \<mapsto> ''token'']])"
  by (simp add: Secrets_def SecretEnvVarNames_def envPrefix_def formatInt_1 exampleEnv_def
      AuthTypeBearerToken_def SecretTypeBearerToken_def)

lemma example_basic:
  "fst (Secrets Map.empty exampleEnv 1 AuthTypeBasicAuth)
     = Inr [''username'' \<mapsto> ''user'', ''password'' \<mapsto> ''pass'']"
  by (simp add: Secrets_def SecretEnvVarNames_def envPrefix_def formatInt_1 exampleEnv_def
      AuthTypeBearerToken_def AuthTypeBasicAuth_def SecretTypeUsername_def SecretTypePassword_def)

lemma example_missing:
  "Secrets Map.empty exampleEnv 2 AuthTypeBearerToken
     = (Inl (MissingEnvironmentVariable ''CARACOL_PROVIDER2_BEARER_TOKEN''), Map.empty)"
  by (simp add: Secrets_def SecretEnvVarNames_def envPrefix_def formatInt_2 exampleEnv_def
      AuthTypeBearerToken_def SecretTypeBearerToken_def)

lemma example_second_provider:
  "Secrets [1 \<mapsto> [''bearer_token'' \<mapsto> ''token'']]
     [''CARACOL_PROVIDER2_BEARER_TOKEN'' \<mapsto> ''token2''] 2 AuthTypeBearerToken
     = (Inr [''bearer_token'' \<mapsto> ''token2''],
        [1 \<mapsto> [''bearer_token'' \<mapsto> ''token''], 2 \<mapsto> [''bearer_token'' \<mapsto> ''token2'']])"
  by (simp add: Secrets_def SecretEnvVarNames_def envPrefix_def formatInt_2
      AuthTypeBearerToken_def SecretTypeBearerToken_def)

text \<open>
  Provider 1 is resolved as bearer token, then provider 2, and provider 1 is asked again
  as basic auth under an empty environment; the entry of provider 1 after a loop body for
  a query of provider 2 and the return of a monitor; a failed resolution for provider 2;
  a pass over a query of provider 2, which has no variables, and the example query.
\<close>

theorem Secrets_cached_per_provider_id_witness:
  "Secrets [1 \<mapsto> [''bearer_token'' \<mapsto> ''token''], 2 \<mapsto> [''bearer_token'' \<mapsto> ''token2'']]
     Map.empty 1 AuthTypeBasicAuth
     = (Inr [''bearer_token'' \<mapsto> ''token''],
        [1 \<mapsto> [''bearer_token'' \<mapsto> ''token''], 2 \<mapsto> [''bearer_token'' \<mapsto> ''token2'']])
   \<and> ss (run [Iteration exampleEnv (exampleQuery\<lparr>ID := 2, ProviderID := 2\<rparr>), Return 0]
              (newCollector\<lparr>ss := [1 \<mapsto> [''bearer_token'' \<mapsto> ''token'']]\<rparr>)) 1
       = Some [''bearer_token'' \<mapsto> ''token'']
   \<and> snd (Secrets Map.empty exampleEnv 2 AuthTypeBearerToken) = Map.empty
   \<and> monitorEach exampleEnv ([] @ exampleQuery\<lparr>ID := 2, ProviderID := 2\<rparr> # [exampleQuery])
         newCollector
       = monitorEach exampleEnv ([] @ [exampleQuery]) newCollector
   \<and> fst (monitorActiveQueries exampleEnv 0 newCollector exampleDB) = None"
proof -
  let ?m1 = "[''bearer_token'' \<mapsto> ''token'']"
  let ?calls = "[([''CARACOL_PROVIDER2_BEARER_TOKEN'' \<mapsto> ''token2''], 2, AuthTypeBearerToken)]"
  let ?q2 = "exampleQuery\<lparr>ID := 2, ProviderID := 2\<rparr>"
  let ?qc1 = "newCollector\<lparr>ss := [1 \<mapsto> ?m1]\<rparr>"
  let ?err = "MissingEnvironmentVariable ''CARACOL_PROVIDER2_BEARER_TOKEN''"
  have after: "secretsAfter ?calls [1 \<mapsto> ?m1]
                 = [1 \<mapsto> ?m1, 2 \<mapsto> [''bearer_token'' \<mapsto> ''token2'']]"
    by (simp add: example_second_provider)
  have e: "ss ?qc1 1 = Some ?m1" by simp
  have f0: "fst (Secrets Map.empty exampleEnv 2 AuthTypeBearerToken) = Inl ?err"
    by (simp add: example_missing)
  have f: "fst (Secrets (ss (monitorEach exampleEnv [] newCollector)) exampleEnv
                 (ProviderID ?q2) (AuthType ?q2)) = Inl ?err"
    by (simp add: newCollector_def exampleQuery_def example_missing)
  note t = Secrets_cached_per_provider_id
         [where p = Map.empty and env = exampleEnv and pid = 1 and authType = AuthTypeBearerToken
            and s = ?m1 and p' = "[1 \<mapsto> ?m1]" and calls = ?calls and env' = Map.empty
            and authType' = AuthTypeBasicAuth and ?qs1.0 = "[]" and qc = ?qc1
            and es = "[Iteration exampleEnv ?q2, Return 0]"
            and q = ?q2 and err = ?err and ?qs2.0 = "[exampleQuery]" and dbnow = 0
            and d = exampleDB]
  note t2 = Secrets_cached_per_provider_id
         [where p = Map.empty and env = exampleEnv and pid = 2 and authType = AuthTypeBearerToken
            and ?qs1.0 = "[]" and qc = newCollector
            and q = ?q2 and err = ?err and ?qs2.0 = "[exampleQuery]" and dbnow = 0
            and d = exampleDB]
  have "Secrets (secretsAfter ?calls [1 \<mapsto> ?m1]) Map.empty 1 AuthTypeBasicAuth
          = (Inr ?m1, secretsAfter ?calls [1 \<mapsto> ?m1])"
    using t example_bearer by blast
  moreover have "ss (run [Iteration exampleEnv ?q2, Return 0] ?qc1) 1 = Some ?m1"
    using t e by blast
  moreover have "snd (Secrets Map.empty exampleEnv 2 AuthTypeBearerToken) = Map.empty"
    using t2 f0 by blast
  moreover have "monitorEach exampleEnv ([] @ ?q2 # [exampleQuery]) newCollector
       = monitorEach exampleEnv ([] @ [exampleQuery]) newCollector"
    using t2 f by blast
  moreover have "fst (monitorActiveQueries exampleEnv 0 newCollector exampleDB) = None"
    using t2 by blast
  ultimately show ?thesis unfolding after by blast
qed

text \<open>
  Claim C7 as stated fails: after provider 1 was resolved as bearer token, the call for
  provider 1 with basic auth returns the cached bearer-token map and not the user name
  and password that basic auth names.
\<close>

theorem Secrets_other_auth_kind_counterexample:
  "Secrets Map.empty exampleEnv 1 AuthTypeBearerToken
     = (Inr [''bearer_token'' \<mapsto> ''token''], [1 \<mapsto> [''bearer_token'' \<mapsto> ''token'']])
   \<and> Secrets [1 \<mapsto> [''bearer_token'' \<mapsto> ''token'']] exampleEnv 1 AuthTypeBasicAuth
     = (Inr [''bearer_token'' \<mapsto> ''token''], [1 \<mapsto> [''bearer_token'' \<mapsto> ''token'']])
   \<and> fst (Secrets Map.empty exampleEnv 1 AuthTypeBasicAuth)
     = Inr [''username'' \<mapsto> ''user'', ''password'' \<mapsto> ''pass'']
   \<and> [''bearer_token'' \<mapsto> ''token''] ''username'' = None
   \<and> [''username'' \<mapsto> ''user'', ''password'' \<mapsto> ''pass''] ''username'' = Some ''user''"
  using example_bearer example_basic by (simp add: Secrets_def)

section \<open>The registry of monitors\<close>

lemma distinct_map_drop_nth:
  assumes "distinct (map f xs)" and "n < length xs"
  shows "distinct (map f (take n xs @ drop (Suc n) xs))"
    and "x \<in> set (take n xs @ drop (Suc n) xs) \<Longrightarrow> f x \<noteq> f (xs ! n)"
proof -
  have "xs = take n xs @ xs ! n # drop (Suc n) xs"
    using assms(2) by (rule id_take_nth_drop)
  then have "distinct (map f (take n xs @ xs ! n # drop (Suc n) xs))"
    using assms(1) by simp
  then have d: "distinct (map f (take n xs @ drop (Suc n) xs))"
    and n: "f (xs ! n) \<notin> f ` set (take n xs @ drop (Suc n) xs)"
    by auto
  show "distinct (map f (take n xs @ drop (Suc n) xs))" by (rule d)
  show "f x \<noteq> f (xs ! n)" if "x \<in> set (take n xs @ drop (Suc n) xs)"
    using n that by (metis imageI)
qed

lemma monitorActiveQuery_tasks:
  "tasks (monitorActiveQuery env q qc)
     = (case fst (Secrets (ss qc) env (ProviderID q) (AuthType q)) of
          Inl err \<Rightarrow> tasks qc
        | Inr secrets \<Rightarrow>
            if monitors qc (ID q) = None
            then tasks qc @ [\<lparr>query = q, ps = secrets, collectionCounter = 0, errorCounter = 0\<rparr>]
            else tasks qc)"
  by (cases "Secrets (ss qc) env (ProviderID q) (AuthType q)")
     (auto simp add: monitorActiveQuery_def LoadOrStore_def Let_def
       split: sum.splits option.splits)

lemma monitorActiveQuery_monitors:
  "dom (monitors (monitorActiveQuery env q qc))
     = (case fst (Secrets (ss qc) env (ProviderID q) (AuthType q)) of
          Inl err \<Rightarrow> dom (monitors qc)
        | Inr secrets \<Rightarrow> insert (ID q) (dom (monitors qc)))"
  by (cases "Secrets (ss qc) env (ProviderID q) (AuthType q)")
     (auto simp add: monitorActiveQuery_def LoadOrStore_def Let_def
       split: sum.splits option.splits)

lemma registered_step: "registered qc \<Longrightarrow> registered (step e qc)"
proof (cases e)
  case (Iteration env q)
  assume r: "registered qc"
  show ?thesis
  proof (cases "fst (Secrets (ss qc) env (ProviderID q) (AuthType q))")
    case (Inl err)
    then show ?thesis
      using r Iteration
      by (simp add: registered_def monitorActiveQuery_tasks monitorActiveQuery_monitors)
  next
    case (Inr secrets)
    show ?thesis
    proof (cases "monitors qc (ID q) = None")
      case True
      then have "ID q \<notin> (\<lambda>m. ID (query m)) ` set (tasks qc)"
        using r by (auto simp add: registered_def)
      then show ?thesis
        using r Iteration Inr True
        by (auto simp add: registered_def monitorActiveQuery_tasks monitorActiveQuery_monitors)
    next
      case False
      then show ?thesis
        using r Iteration Inr
        by (auto simp add: registered_def monitorActiveQuery_tasks monitorActiveQuery_monitors)
    qed
  qed
next
  case (Return n)
  assume r: "registered qc"
  show ?thesis
  proof (cases "n < length (tasks qc)")
    case False
    then show ?thesis using r Return by simp
  next
    case True
    have d: "distinct (map (\<lambda>m. ID (query m)) (tasks qc))"
      using r by (simp add: registered_def)
    have sub: "set (take n (tasks qc) @ drop (Suc n) (tasks qc)) \<subseteq> set (tasks qc)"
      using set_take_subset [of n "tasks qc"] set_drop_subset [of "Suc n" "tasks qc"] by auto
    have "ID (query m) \<in> dom (monitors qc) - {ID (query (tasks qc ! n))}"
      if "m \<in> set (take n (tasks qc) @ drop (Suc n) (tasks qc))" for m
    proof -
      have "m \<in> set (tasks qc)" using that sub by blast
      then have "ID (query m) \<in> dom (monitors qc)"
        using r by (simp add: registered_def image_subset_iff)
      then show ?thesis using distinct_map_drop_nth(2) [OF d True that] by simp
    qed
    then show ?thesis
      using Return True distinct_map_drop_nth(1) [OF d True]
      by (auto simp add: registered_def monitorExit_def Let_def)
  qed
qed

lemma registered_run: "registered qc \<Longrightarrow> registered (run es qc)"
  by (induction es arbitrary: qc) (simp_all add: registered_step)

lemma registered_new: "registered newCollector"
  by (simp add: registered_def newCollector_def)

text \<open>
  Claim C9. Whatever passes of the collector run, one after the other or interleaved, and
  whichever monitors return in between, no two live monitors have the same query id.
  \<open>LoadOrStore\<close> on a key that is present returns the stored value and leaves the registry
  as it is, and the loop body starts a monitor task only when \<open>LoadOrStore\<close> added the
  entry (and the secrets were resolved).
\<close>

theorem no_two_live_monitors:
  "distinct (map (\<lambda>m. ID (query m)) (tasks (run es newCollector)))
   \<and> LoadOrStore (reg(key \<mapsto> v)) key v' = (v, True, reg(key \<mapsto> v))
   \<and> tasks (monitorActiveQuery env q qc)
       = (case fst (Secrets (ss qc) env (ProviderID q) (AuthType q)) of
            Inl err \<Rightarrow> tasks qc
          | Inr secrets \<Rightarrow>
              if monitors qc (ID q) = None
              then tasks qc @ [\<lparr>query = q, ps = secrets, collectionCounter = 0, errorCounter = 0\<rparr>]
              else tasks qc)"
proof (intro conjI)
  have "registered (run es newCollector)" using registered_new by (rule registered_run)
  then show "distinct (map (\<lambda>m. ID (query m)) (tasks (run es newCollector)))"
    by (simp add: registered_def)
next
  show "LoadOrStore (reg(key \<mapsto> v)) key v' = (v, True, reg(key \<mapsto> v))"
    by (simp add: LoadOrStore_def)
next
  show "tasks (monitorActiveQuery env q qc)
       = (case fst (Secrets (ss qc) env (ProviderID q) (AuthType q)) of
            Inl err \<Rightarrow> tasks qc
          | Inr secrets \<Rightarrow>
              if monitors qc (ID q) = None
              then tasks qc @ [\<lparr>query = q, ps = secrets, collectionCounter = 0, errorCounter = 0\<rparr>]
              else tasks qc)"
    by (rule monitorActiveQuery_tasks)
qed

lemma example_iteration_new:
  "monitorActiveQuery exampleEnv exampleQuery newCollector
     = newCollector\<lparr>ss := [1 \<mapsto> [''bearer_token'' \<mapsto> ''token'']],
         monitors := [1 \<mapsto> \<lparr>query = exampleQuery, ps = [''bearer_token'' \<mapsto> ''token''],
                              collectionCounter = 0, errorCounter = 0\<rparr>],
         monitorGauge := 1,
         tasks := [\<lparr>query = exampleQuery, ps = [''bearer_token'' \<mapsto> ''token''],
                    collectionCounter = 0, errorCounter = 0\<rparr>]\<rparr>"
proof -
  have "ProviderID exampleQuery = 1" "AuthType exampleQuery = AuthTypeBearerToken"
    "ID exampleQuery = 1"
    by (simp_all add: exampleQuery_def)
  then show ?thesis
    by (simp add: monitorActiveQuery_def newCollector_def example_bearer LoadOrStore_def
        Let_def)
qed

lemma example_iteration_again:
  "monitors qc 1 = Some m \<Longrightarrow> ss qc 1 = Some s \<Longrightarrow>
     monitorActiveQuery exampleEnv exampleQuery qc = qc"
proof -
  assume a: "monitors qc 1 = Some m" "ss qc 1 = Some s"
  have "ProviderID exampleQuery = 1" "ID exampleQuery = 1"
    by (simp_all add: exampleQuery_def)
  then show ?thesis
    using a by (simp add: monitorActiveQuery_def Secrets_cached LoadOrStore_def)
qed

text \<open>Two passes over the example query: one live monitor.\<close>

theorem no_two_live_monitors_witness:
  "distinct (map (\<lambda>m. ID (query m))
      (tasks (run [Iteration exampleEnv exampleQuery, Iteration exampleEnv exampleQuery]
                newCollector)))
   \<and> tasks (run [Iteration exampleEnv exampleQuery, Iteration exampleEnv exampleQuery]
               newCollector)
       = [\<lparr>query = exampleQuery, ps = [''bearer_token'' \<mapsto> ''token''],
           collectionCounter = 0, errorCounter = 0\<rparr>]"
proof -
  have "tasks (run [Iteration exampleEnv exampleQuery, Iteration exampleEnv exampleQuery]
               newCollector)
       = [\<lparr>query = exampleQuery, ps = [''bearer_token'' \<mapsto> ''token''],
           collectionCounter = 0, errorCounter = 0\<rparr>]"
    by (simp add: example_iteration_new example_iteration_again)
  moreover have "distinct (map (\<lambda>m. ID (query m))
      (tasks (run [Iteration exampleEnv exampleQuery, Iteration exampleEnv exampleQuery]
                newCollector)))"
    using no_two_live_monitors
            [of "[Iteration exampleEnv exampleQuery, Iteration exampleEnv exampleQuery]"]
    by (rule conjunct1)
  ultimately show ?thesis by (rule conjI [rotated])
qed

section \<open>Finding the gaps\<close>

lemma quo_nonpos: "a \<le> 0 \<Longrightarrow> 0 < b \<Longrightarrow> quo a b = - ((- a) div b)"
  by (cases "a = 0") (simp_all add: quo_def)

lemma quo_small: "\<bar>a\<bar> < b \<Longrightarrow> quo a b = 0"
  by (simp add: quo_def div_pos_pos_trivial)

lemma quo_quo:
  assumes "0 < b" and "0 < c"
  shows "quo (quo a b) c = quo a (b * c)"
proof (cases "0 \<le> a")
  case True
  then have "0 \<le> a div b" using assms(1) by (simp add: pos_imp_zdiv_nonneg_iff)
  then show ?thesis
    using True assms by (simp add: quo_nonneg zdiv_zmult2_eq)
next
  case False
  then have a: "a \<le> 0" "0 \<le> - a" by simp_all
  then have "0 \<le> (- a) div b" using assms(1) by (simp add: pos_imp_zdiv_nonneg_iff)
  then have "- ((- a) div b) \<le> 0" by simp
  then show ?thesis
    using a assms by (simp add: quo_nonpos zdiv_zmult2_eq)
qed

lemma quo_scale:
  assumes "0 < k" and "0 \<le> D \<or> D mod 1000 = 0"
  shows "quo (D div 1000) k = quo D (1000 * k)"
proof (cases "0 \<le> D")
  case True
  then have "0 \<le> D div 1000" by (simp add: pos_imp_zdiv_nonneg_iff)
  then show ?thesis using True assms(1) by (simp add: quo_nonneg zdiv_zmult2_eq)
next
  case False
  then have m: "D mod 1000 = 0" using assms(2) by simp
  then have D: "D = 1000 * (D div 1000)" by (simp add: mod_0_imp_dvd)
  define e where "e = D div 1000"
  have e: "e \<le> 0" "D \<le> 0" using False D by (simp_all add: e_def)
  have "(- D) div (1000 * k) = (- e) div k"
  proof -
    have "- D = 1000 * (- e)" using D by (simp add: e_def)
    then have "(- D) div (1000 * k) = (1000 * (- e)) div (1000 * k)" by simp
    also have "\<dots> = (- e) div k" by (rule div_mult_mult1) simp
    finally show ?thesis .
  qed
  then show ?thesis using e assms(1) by (simp add: quo_nonpos e_def [symmetric])
qed


lemma SeqAfter_quo:
  assumes u: "specUnit (Interval q) = Some u"
    and lo: "minDuration \<le> t - Start q" and hi: "t - Start q \<le> maxDuration"
  shows "SeqAfter q t = 1 + quo (t - Start q) u"
proof -
  have s: "Sub t (Start q) = t - Start q" using lo hi by (rule Sub_exact)
  from specUnit_cases [OF u] show ?thesis
    by (auto simp add: SeqAfter_def s QueryIntervalHourly_def QueryIntervalDaily_def
        QueryIntervalWeekly_def)
qed

lemma pgTimestamptz_diff:
  assumes "Start q mod 1000 = 0"
  shows "pgTimestamptz now - pgTimestamptz (Start q) = (now - Start q) div 1000"
proof -
  have "Start q = 1000 * (Start q div 1000)" using assms by (simp add: mod_0_imp_dvd)
  then have "now = (now - Start q) + (Start q div 1000) * 1000" by simp
  then have "now div 1000 = ((now - Start q) + (Start q div 1000) * 1000) div 1000" by simp
  also have "\<dots> = (now - Start q) div 1000 + Start q div 1000" by simp
  finally show ?thesis by (simp add: pgTimestamptz_def)
qed

lemma lastSeq_quo:
  assumes u: "specUnit (Interval q) = Some u"
    and us: "Start q mod 1000 = 0"
    and day: "Interval q = QueryIntervalHourly \<longrightarrow> \<bar>now - Start q\<bar> < 24 * Hour"
    and res: "Start q \<le> now \<or> now mod 1000 = 0"
  shows "lastSeq q (pgTimestamptz now) = quo (now - Start q) u"
proof -
  define D where "D = now - Start q"
  have diff: "pgTimestamptz now - pgTimestamptz (Start q) = D div 1000"
    using us by (simp add: pgTimestamptz_diff D_def)
  have r: "0 \<le> D \<or> D mod 1000 = 0"
    using res us by (auto simp add: D_def mod_diff_eq [symmetric, of now 1000 "Start q"])
  have days: "quo (D div 1000) usecsPerDay = quo D (24 * Hour)"
    using quo_scale [OF _ r, of usecsPerDay] by (simp add: usecsPerDay_def Hour_def)
  consider (h) "Interval q = QueryIntervalHourly" "u = Hour"
    | (d) "Interval q = QueryIntervalDaily" "u = 24 * Hour"
    | (w) "Interval q = QueryIntervalWeekly" "u = 168 * Hour"
    using specUnit_cases [OF u] by blast
  then have "lastSeq q (pgTimestamptz now) = quo D u"
  proof cases
    case h
    then have "\<bar>D\<bar> < 24 * Hour" using day by (simp add: D_def)
    then have "quo D (24 * Hour) = 0" by (rule quo_small)
    then have "quo (D div 1000) usecsPerDay = 0" using days by simp
    moreover have "quo (D div 1000) usecsPerHour = quo D Hour"
      using quo_scale [OF _ r, of usecsPerHour] by (simp add: usecsPerHour_def Hour_def)
    ultimately show ?thesis
      using h by (simp add: lastSeq_def timestamp_mi_def extract_hour_def diff Let_def
          QueryIntervalHourly_def)
  next
    case d
    then show ?thesis
      using days by (simp add: lastSeq_def timestamp_mi_def extract_day_def diff Let_def
          QueryIntervalDaily_def)
  next
    case w
    have "quo (quo (D div 1000) usecsPerDay) 7 = quo (D div 1000) (usecsPerDay * 7)"
      by (rule quo_quo) (simp_all add: usecsPerDay_def)
    also have "\<dots> = quo D (1000 * (usecsPerDay * 7))"
      using r by (intro quo_scale) (simp_all add: usecsPerDay_def)
    also have "\<dots> = quo D (168 * Hour)" by (simp add: usecsPerDay_def Hour_def)
    finally show ?thesis
      using w by (simp add: lastSeq_def timestamp_mi_def extract_day_def diff Let_def
          QueryIntervalWeekly_def)
  qed
  then show ?thesis by (simp add: D_def)
qed

text \<open>
  Claim C1, amended. Take a healthy connection and a daily or weekly query that is in the
  table (its id a 32-bit integer), with \<open>now - start\<close> inside the range of a Duration; the
  start is a whole number of microseconds, as every timestamp of the database is, and
  \<open>now\<close> is not before the start or is a whole number of microseconds itself; the engine
  returns the rows of a result in some order. Then \<open>FindCollectionGaps\<close> returns exactly
  the sequence numbers of the closed range \<open>[0, lastExpected]\<close>, with
  \<open>lastExpected = SeqAfter(now) - 1\<close>, that have no stored row, each of them once, and the
  empty list when \<open>lastExpected\<close> is negative. For the hourly example query, three hours
  after its start, it returns 0, 1, 2 and 3 on the empty store, and 0, 2 and 3 once
  sequence number 1 is stored.
\<close>

theorem FindCollectionGaps_expected_range:
  "(faults d = [] \<and> int4 queryID \<and> filter (\<lambda>r. ID r = queryID) (queries d) = [q]
      \<and> (\<forall>rows. mset (rowOrder d rows) = mset rows)
      \<and> (Interval q = QueryIntervalDaily \<or> Interval q = QueryIntervalWeekly)
      \<and> Start q mod 1000 = 0
      \<and> minDuration \<le> now - Start q \<and> now - Start q \<le> maxDuration
      \<and> (Start q \<le> now \<or> now mod 1000 = 0)
    \<longrightarrow> (\<exists>gaps. FindCollectionGaps d queryID now = (Inr gaps, d)
          \<and> distinct gaps
          \<and> set gaps = {s. 0 \<le> s \<and> s \<le> SeqAfter q now - 1 \<and> \<not> hasCollection d queryID s}
          \<and> (SeqAfter q now - 1 < 0 \<longrightarrow> gaps = [])))
   \<and> ((\<forall>rows. mset (ro rows) = mset rows) \<longrightarrow>
        (\<exists>gaps. FindCollectionGaps (exampleDB\<lparr>rowOrder := ro\<rparr>) 1
                   (1704067200000000000 + 3 * Hour)
                 = (Inr gaps, exampleDB\<lparr>rowOrder := ro\<rparr>)
               \<and> mset gaps = mset [0, 1, 2, 3])
        \<and> (\<exists>gaps. FindCollectionGaps
                   (exampleDB\<lparr>collections := [\<lparr>c_query_id = 1, c_seq = 1, c_value = 1 / 2\<rparr>],
                              rowOrder := ro\<rparr>) 1
                   (1704067200000000000 + 3 * Hour)
                 = (Inr gaps,
                    exampleDB\<lparr>collections := [\<lparr>c_query_id = 1, c_seq = 1, c_value = 1 / 2\<rparr>],
                              rowOrder := ro\<rparr>)
               \<and> mset gaps = mset [0, 2, 3]))"
proof (intro conjI impI)
  assume a: "faults d = [] \<and> int4 queryID \<and> filter (\<lambda>r. ID r = queryID) (queries d) = [q]
      \<and> (\<forall>rows. mset (rowOrder d rows) = mset rows)
      \<and> (Interval q = QueryIntervalDaily \<or> Interval q = QueryIntervalWeekly)
      \<and> Start q mod 1000 = 0
      \<and> minDuration \<le> now - Start q \<and> now - Start q \<le> maxDuration
      \<and> (Start q \<le> now \<or> now mod 1000 = 0)"
  then have nf: "faults d = []" and i4: "int4 queryID"
    and row: "filter (\<lambda>r. ID r = queryID) (queries d) = [q]"
    and perm: "\<And>rows. mset (rowOrder d rows) = mset rows"
    and kind: "Interval q = QueryIntervalDaily \<or> Interval q = QueryIntervalWeekly"
    and us: "Start q mod 1000 = 0"
    and lo: "minDuration \<le> now - Start q" and hi: "now - Start q \<le> maxDuration"
    and res: "Start q \<le> now \<or> now mod 1000 = 0"
    by blast+
  obtain u where u: "specUnit (Interval q) = Some u"
    using kind by (auto simp add: specUnit_def QueryIntervalDaily_def QueryIntervalWeekly_def)
  have day: "Interval q = QueryIntervalHourly \<longrightarrow> \<bar>now - Start q\<bar> < 24 * Hour"
    using kind
    by (auto simp add: QueryIntervalHourly_def QueryIntervalDaily_def QueryIntervalWeekly_def)
  have "lastSeq q (pgTimestamptz now) = quo (now - Start q) u"
    using u us day res by (rule lastSeq_quo)
  moreover have "SeqAfter q now = 1 + quo (now - Start q) u"
    using u lo hi by (rule SeqAfter_quo)
  ultimately have last: "lastSeq q (pgTimestamptz now) = SeqAfter q now - 1" by simp
  let ?rows = "filter (\<lambda>s. \<not> hasCollection d queryID s) [0 .. SeqAfter q now - 1]"
  have g: "FindCollectionGaps d queryID now = (Inr (rowOrder d ?rows), d)"
    using nf i4 row last by (simp add: FindCollectionGaps_def NewConn_def gapRows_def)
  have m: "mset (rowOrder d ?rows) = mset ?rows" by (rule perm)
  have "distinct ?rows" by simp
  then have dist: "distinct (rowOrder d ?rows)"
    using mset_eq_imp_distinct_iff [OF m] by blast
  have "set (rowOrder d ?rows) = set ?rows" using m by (rule mset_eq_setD)
  then have st: "set (rowOrder d ?rows)
                  = {s. 0 \<le> s \<and> s \<le> SeqAfter q now - 1 \<and> \<not> hasCollection d queryID s}"
    by auto
  have "rowOrder d ?rows = []" if "SeqAfter q now - 1 < 0"
  proof -
    have "?rows = []" using that by simp
    then show ?thesis using m by simp
  qed
  then show "\<exists>gaps. FindCollectionGaps d queryID now = (Inr gaps, d)
          \<and> distinct gaps
          \<and> set gaps = {s. 0 \<le> s \<and> s \<le> SeqAfter q now - 1 \<and> \<not> hasCollection d queryID s}
          \<and> (SeqAfter q now - 1 < 0 \<longrightarrow> gaps = [])"
    using g dist st by blast
next
  assume perm: "\<forall>rows. mset (ro rows) = mset rows"
  have "FindCollectionGaps (exampleDB\<lparr>rowOrder := ro\<rparr>) 1 (1704067200000000000 + 3 * Hour)
          = (Inr (ro [0, 1, 2, 3]), exampleDB\<lparr>rowOrder := ro\<rparr>)"
    by (simp add: FindCollectionGaps_def NewConn_def gapRows_def lastSeq_def timestamp_mi_def
        extract_hour_def pgTimestamptz_def quo_def usecsPerDay_def usecsPerHour_def
        hasCollection_def exampleDB_def exampleQuery_def QueryIntervalHourly_def Hour_def
        upto_rec1 int4_def)
  moreover have "mset (ro [0, 1, 2, 3]) = mset [0, 1, 2, 3]" using perm by blast
  ultimately show "\<exists>gaps. FindCollectionGaps (exampleDB\<lparr>rowOrder := ro\<rparr>) 1
                   (1704067200000000000 + 3 * Hour)
                 = (Inr gaps, exampleDB\<lparr>rowOrder := ro\<rparr>)
               \<and> mset gaps = mset [0, 1, 2, 3]"
    by blast
next
  assume perm: "\<forall>rows. mset (ro rows) = mset rows"
  let ?d = "exampleDB\<lparr>collections := [\<lparr>c_query_id = 1, c_seq = 1, c_value = 1 / 2\<rparr>],
                      rowOrder := ro\<rparr>"
  have "FindCollectionGaps ?d 1 (1704067200000000000 + 3 * Hour) = (Inr (ro [0, 2, 3]), ?d)"
    by (simp add: FindCollectionGaps_def NewConn_def gapRows_def lastSeq_def timestamp_mi_def
        extract_hour_def pgTimestamptz_def quo_def usecsPerDay_def usecsPerHour_def
        hasCollection_def exampleDB_def exampleQuery_def QueryIntervalHourly_def Hour_def
        upto_rec1 int4_def)
  moreover have "mset (ro [0, 2, 3]) = mset [0, 2, 3]" using perm by blast
  ultimately show "\<exists>gaps. FindCollectionGaps ?d 1 (1704067200000000000 + 3 * Hour)
                 = (Inr gaps, ?d) \<and> mset gaps = mset [0, 2, 3]"
    by blast
qed

text \<open>
  The daily query 77 hours after its start, with sequence number 1 stored and an engine
  that returns rows in reverse: the gaps are 3, 2 and 0. The hourly example under the
  same engine.
\<close>

theorem FindCollectionGaps_expected_range_witness:
  "FindCollectionGaps exampleDailyDB 1 (1704067200000000000 + 77 * Hour)
     = (Inr [3, 2, 0], exampleDailyDB)
   \<and> set [3, 2, 0]
       = {s. 0 \<le> s
             \<and> s \<le> SeqAfter (exampleQuery\<lparr>Interval := QueryIntervalDaily\<rparr>)
                       (1704067200000000000 + 77 * Hour) - 1
             \<and> \<not> hasCollection exampleDailyDB 1 s}
   \<and> FindCollectionGaps (exampleDB\<lparr>rowOrder := rev\<rparr>) 1 (1704067200000000000 + 3 * Hour)
       = (Inr [3, 2, 1, 0], exampleDB\<lparr>rowOrder := rev\<rparr>)
   \<and> mset [3, 2, 1, 0] = mset [0, 1, 2, 3 :: int]"
proof -
  let ?q = "exampleQuery\<lparr>Interval := QueryIntervalDaily\<rparr>"
  let ?now = "1704067200000000000 + 77 * Hour"
  have st: "Start ?q = 1704067200000000000" by (simp add: exampleQuery_def)
  have h: "faults exampleDailyDB = [] \<and> int4 1
      \<and> filter (\<lambda>r. ID r = 1) (queries exampleDailyDB) = [?q]
      \<and> (\<forall>rows. mset (rowOrder exampleDailyDB rows) = mset rows)
      \<and> (Interval ?q = QueryIntervalDaily \<or> Interval ?q = QueryIntervalWeekly)
      \<and> Start ?q mod 1000 = 0
      \<and> minDuration \<le> ?now - Start ?q \<and> ?now - Start ?q \<le> maxDuration
      \<and> (Start ?q \<le> ?now \<or> ?now mod 1000 = 0)"
    unfolding st
    by (simp add: exampleDailyDB_def exampleQuery_def int4_def Hour_def minDuration_def
        maxDuration_def)
  have p: "\<forall>rows :: int list. mset (rev rows) = mset rows" by simp
  have e1: "FindCollectionGaps exampleDailyDB 1 ?now = (Inr [3, 2, 0], exampleDailyDB)"
    by (simp add: FindCollectionGaps_def NewConn_def gapRows_def lastSeq_def timestamp_mi_def
        extract_day_def pgTimestamptz_def quo_def usecsPerDay_def
        hasCollection_def exampleDailyDB_def exampleQuery_def QueryIntervalHourly_def
        QueryIntervalDaily_def Hour_def upto_rec1 int4_def)
  have e2: "FindCollectionGaps (exampleDB\<lparr>rowOrder := rev\<rparr>) 1 (1704067200000000000 + 3 * Hour)
       = (Inr [3, 2, 1, 0], exampleDB\<lparr>rowOrder := rev\<rparr>)"
    by (simp add: FindCollectionGaps_def NewConn_def gapRows_def lastSeq_def timestamp_mi_def
        extract_hour_def pgTimestamptz_def quo_def usecsPerDay_def usecsPerHour_def
        hasCollection_def exampleDB_def exampleQuery_def QueryIntervalHourly_def Hour_def
        upto_rec1 int4_def)
  note t = FindCollectionGaps_expected_range
             [where d = exampleDailyDB and queryID = 1 and q = ?q and now = ?now and ro = rev]
  from t h obtain gaps where
    g: "FindCollectionGaps exampleDailyDB 1 ?now = (Inr gaps, exampleDailyDB)"
    and s: "set gaps = {s. 0 \<le> s \<and> s \<le> SeqAfter ?q ?now - 1 \<and> \<not> hasCollection exampleDailyDB 1 s}"
    by blast
  have "gaps = [3, 2, 0]" using g e1 by simp
  then have c2: "set [3, 2, 0]
       = {s. 0 \<le> s \<and> s \<le> SeqAfter ?q ?now - 1 \<and> \<not> hasCollection exampleDailyDB 1 s}"
    using s by simp
  from t p obtain gaps' where
    g': "FindCollectionGaps (exampleDB\<lparr>rowOrder := rev\<rparr>) 1 (1704067200000000000 + 3 * Hour)
          = (Inr gaps', exampleDB\<lparr>rowOrder := rev\<rparr>)"
    and m: "mset gaps' = mset [0, 1, 2, 3]"
    by blast
  have "gaps' = [3, 2, 1, 0]" using g' e2 by simp
  then have c4: "mset [3, 2, 1, 0] = mset [0, 1, 2, 3 :: int]" using m by simp
  show ?thesis using e1 c2 e2 c4 by blast
qed

text \<open>
  Claim C1 as stated fails on its own example: three hours after the start
  \<open>lastExpected\<close> is 3, and the gaps of the empty store are 0, 1, 2 and 3 (not 0, 1, 2),
  and 0, 2 and 3 (not 0, 2) once sequence number 1 is stored.
\<close>

theorem FindCollectionGaps_example_counterexample:
  "FindCollectionGaps exampleDB 1 (1704067200000000000 + 3 * Hour)
     = (Inr [0, 1, 2, 3], exampleDB)
   \<and> SeqAfter exampleQuery (1704067200000000000 + 3 * Hour) - 1 = 3
   \<and> FindCollectionGaps
       (exampleDB\<lparr>collections := [\<lparr>c_query_id = 1, c_seq = 1, c_value = 1 / 2\<rparr>]\<rparr>) 1
       (1704067200000000000 + 3 * Hour)
     = (Inr [0, 2, 3],
        exampleDB\<lparr>collections := [\<lparr>c_query_id = 1, c_seq = 1, c_value = 1 / 2\<rparr>]\<rparr>)"
  by (simp add: FindCollectionGaps_def NewConn_def gapRows_def lastSeq_def timestamp_mi_def
      extract_hour_def pgTimestamptz_def quo_def usecsPerDay_def usecsPerHour_def
      hasCollection_def exampleDB_def exampleQuery_def QueryIntervalHourly_def Hour_def
      upto_rec1 SeqAfter_def Sub_def Equal_def Add_def wrap64_def int4_def)

text \<open>
  The hourly branch of the SQL reads the hour field of the interval \<open>now - start\<close>, which
  stays below 24, where the daily and weekly branches and \<open>SeqAfter\<close> count whole units
  elapsed: 27 hours after the start of the hourly example query the gaps end at 3,
  while \<open>SeqAfter(now) - 1\<close> is 27.
\<close>

lemma FindCollectionGaps_hour_field:
  "FindCollectionGaps exampleDB 1 (1704067200000000000 + 27 * Hour)
     = (Inr [0, 1, 2, 3], exampleDB)
   \<and> SeqAfter exampleQuery (1704067200000000000 + 27 * Hour) - 1 = 27"
  by (simp add: FindCollectionGaps_def NewConn_def gapRows_def lastSeq_def timestamp_mi_def
      extract_hour_def pgTimestamptz_def quo_def usecsPerDay_def usecsPerHour_def
      hasCollection_def exampleDB_def exampleQuery_def QueryIntervalHourly_def Hour_def
      upto_rec1 SeqAfter_def Sub_def Equal_def Add_def wrap64_def int4_def)

end
